theory Spec2Isabelle
  imports Main
begin

section \<open>goog.net.WebSocket: a reconnecting socket\<close>

text \<open>
  The embedding follows \<^verbatim>\<open>goog.net.WebSocket\<close> (the second document of
  \<^verbatim>\<open>closure/goog/net/iframeloadmonitor.js\<close>). Private members lose their trailing
  underscore (\<^verbatim>\<open>onClose_\<close> is \<open>onClose\<close>), and the methods \<^verbatim>\<open>open\<close>,
  \<^verbatim>\<open>close\<close>, \<^verbatim>\<open>send\<close> and \<^verbatim>\<open>isOpen\<close> carry the class name as a prefix.

  The object lives in a world that also holds what the browser and \<^verbatim>\<open>goog.Timer\<close> own:
  the transports created so far with their \<^verbatim>\<open>readyState\<close>, the timers that are still
  pending, and a log of everything the object did to its collaborators. Numbers are
  JavaScript doubles in the source; the attempt counter is a \<open>nat\<close> and delays are
  \<open>int\<close> milliseconds here, which is exact below \<open>2 ^ 53\<close>. For the default back-off the
  double computation agrees with the integer one everywhere: \<^verbatim>\<open>Math.pow(2, attempt) * 1000\<close>
  is exact until it overflows to \<^verbatim>\<open>Infinity\<close>, and \<^verbatim>\<open>Math.min\<close> then yields the ceiling.
  Logging through \<^verbatim>\<open>goog.log\<close> is left out, and the listeners of the dispatched
  events, which are the consumer's code, are not run: a dispatch is an entry of the log.
\<close>

datatype BinaryType = ARRAY_BUFFER | BLOB

datatype ReadyState = CONNECTING | OPEN | CLOSING | CLOSED

text \<open>\<^verbatim>\<open>goog.net.WebSocket.Options\<close>; an absent member is \<open>None\<close>.\<close>

record Options =
  opt_autoReconnect :: "bool option"
  opt_getNextReconnect :: "(nat \<Rightarrow> int) option"
  opt_binaryType :: "BinaryType option"

record CloseEvent =
  code :: int
  reason :: string
  wasClean :: bool

datatype EventType =
    CLOSED_EVENT int string bool
  | ERROR_EVENT string
  | MESSAGE_EVENT string
  | OPENED_EVENT

text \<open>
  A pending timer of \<^verbatim>\<open>goog.Timer.callOnce\<close>: its id, its delay, and the arguments that
  \<^verbatim>\<open>goog.bind(this.open, this, this.url_, this.protocol_)\<close> captured when it was scheduled.
\<close>

record timer =
  timerId :: nat
  timerDelay :: int
  timerUrl :: "string option"
  timerProtocol :: "string option"

datatype ws_effect =
    DispatchEvent EventType
  | NewWebSocket nat "string option" "string option" BinaryType
  | TransportClose nat
  | TransportSend nat string
  | TimerCallOnce nat int
  | TimerClear nat
  | TimerFired nat

text \<open>What a call can throw: a failed \<^verbatim>\<open>goog.asserts.assert\<close>, a property access on
  \<^verbatim>\<open>null\<close> or \<^verbatim>\<open>undefined\<close>, and whatever an injected response parser raises.\<close>

datatype js_error = AssertionError | TypeError | ParserException

record WebSocket =
  autoReconnect :: bool
  getNextReconnect :: "nat \<Rightarrow> int"
  binaryType :: BinaryType
  nextReconnect :: int
  webSocket :: "nat option"
  url :: "string option"
  protocol :: "string option"
  closeExpected :: bool
  reconnectAttempt :: nat
  reconnectTimer :: "nat option"
  webSocketSupported :: bool
  transports :: "ReadyState list"
  pendingTimers :: "timer list"
  nextTimerId :: nat
  effects :: "ws_effect list"

definition EXPONENTIAL_BACKOFF_CEILING :: int where
  "EXPONENTIAL_BACKOFF_CEILING = 60 * 1000"

definition EXPONENTIAL_BACKOFF :: "nat \<Rightarrow> int" where
  "EXPONENTIAL_BACKOFF attempt =
     (let time = 2 ^ attempt * 1000 in min time EXPONENTIAL_BACKOFF_CEILING)"

text \<open>
  The constructor. \<^verbatim>\<open>opt_params.autoReconnect != false\<close> makes an absent option
  \<open>True\<close>; the other two options fall back with \<^verbatim>\<open>||\<close>. The prototype supplies
  \<^verbatim>\<open>reconnectAttempt_ = 0\<close>, \<^verbatim>\<open>closeExpected_ = false\<close> and the \<^verbatim>\<open>null\<close> members.
  The first argument says whether the browser has \<^verbatim>\<open>goog.global['WebSocket']\<close>.
\<close>

definition WebSocket_new :: "bool \<Rightarrow> Options option \<Rightarrow> WebSocket" where
  "WebSocket_new supported opt_params =
     (let params = (case opt_params of
                      None \<Rightarrow> \<lparr>opt_autoReconnect = None, opt_getNextReconnect = None,
                                opt_binaryType = None\<rparr>
                    | Some p \<Rightarrow> p);
          next = (case opt_getNextReconnect params of
                    None \<Rightarrow> EXPONENTIAL_BACKOFF | Some f \<Rightarrow> f)
      in \<lparr>autoReconnect = (opt_autoReconnect params \<noteq> Some False),
          getNextReconnect = next,
          binaryType = (case opt_binaryType params of None \<Rightarrow> BLOB | Some b \<Rightarrow> b),
          nextReconnect = next 0,
          webSocket = None,
          url = None,
          protocol = None,
          closeExpected = False,
          reconnectAttempt = 0,
          reconnectTimer = None,
          webSocketSupported = supported,
          transports = [],
          pendingTimers = [],
          nextTimerId = 0,
          effects = []\<rparr>)"

text \<open>
  Modelled from the spec: \<^verbatim>\<open>goog.Timer\<close> is not part of the sources at hand. It is
  the scheduler that hands out a cancel token for a one-shot timer: \<^verbatim>\<open>callOnce\<close> hands
  out a fresh id and keeps the timer pending, \<^verbatim>\<open>clear\<close> removes the timer with that id,
  and only a pending timer can fire.
\<close>

definition Timer_clear :: "nat \<Rightarrow> WebSocket \<Rightarrow> WebSocket" where
  "Timer_clear t w =
     w\<lparr>pendingTimers := filter (\<lambda>x. timerId x \<noteq> t) (pendingTimers w),
       effects := effects w @ [TimerClear t]\<rparr>"

definition Timer_callOnce :: "string option \<Rightarrow> string option \<Rightarrow> int \<Rightarrow> WebSocket \<Rightarrow> nat \<times> WebSocket" where
  "Timer_callOnce u p delay w =
     (let t = nextTimerId w
      in (t, w\<lparr>pendingTimers := pendingTimers w @
                   [\<lparr>timerId = t, timerDelay = delay, timerUrl = u, timerProtocol = p\<rparr>],
                nextTimerId := Suc t,
                effects := effects w @ [TimerCallOnce t delay]\<rparr>))"

definition clearReconnectTimer :: "WebSocket \<Rightarrow> WebSocket" where
  "clearReconnectTimer w =
     (let w1 = (case reconnectTimer w of None \<Rightarrow> w | Some t \<Rightarrow> Timer_clear t w)
      in w1\<lparr>reconnectTimer := None\<rparr>)"

definition WebSocket_isOpen :: "WebSocket \<Rightarrow> bool" where
  "WebSocket_isOpen w =
     (case webSocket w of
        None \<Rightarrow> False
      | Some i \<Rightarrow> i < length (transports w) \<and> transports w ! i = OPEN)"

text \<open>
  \<^verbatim>\<open>open\<close>, with \<^verbatim>\<open>goog.asserts\<close> enabled: both assertions come first, so a failed
  assertion leaves the object as it was. The new transport gets the next index of
  \<open>transports\<close> and starts in \<open>CONNECTING\<close>; a falsy protocol is not passed to the
  transport's constructor. All four handlers of every transport are bound to the one
  object.
\<close>

definition WebSocket_open :: "string option \<Rightarrow> string option \<Rightarrow> WebSocket \<Rightarrow> js_error + WebSocket" where
  "WebSocket_open u opt_protocol w =
     (if \<not> webSocketSupported w then Inl AssertionError
      else if WebSocket_isOpen w then Inl AssertionError
      else
        (let w1 = clearReconnectTimer w;
             w2 = w1\<lparr>url := u, protocol := opt_protocol\<rparr>;
             i = length (transports w2);
             passed = (case protocol w2 of
                         None \<Rightarrow> None
                       | Some p \<Rightarrow> if p = [] then None else Some p)
         in Inr (w2\<lparr>webSocket := Some i,
                     transports := transports w2 @ [CONNECTING],
                     effects := effects w2 @ [NewWebSocket i (url w2) passed (binaryType w2)]\<rparr>)))"

text \<open>
  \<^verbatim>\<open>close\<close>. The browser moves a transport that is asked to close to \<open>CLOSING\<close>
  unless it is \<open>CLOSED\<close> already.
\<close>

definition WebSocket_close :: "WebSocket \<Rightarrow> WebSocket" where
  "WebSocket_close w =
     (let w1 = clearReconnectTimer w
      in (case webSocket w1 of
            None \<Rightarrow> w1
          | Some i \<Rightarrow>
              w1\<lparr>closeExpected := True,
                 transports := (if i < length (transports w1) \<and> transports w1 ! i \<noteq> CLOSED
                                then (transports w1)[i := CLOSING] else transports w1),
                 effects := effects w1 @ [TransportClose i],
                 webSocket := None\<rparr>))"

definition WebSocket_send :: "string \<Rightarrow> WebSocket \<Rightarrow> js_error + WebSocket" where
  "WebSocket_send message w =
     (if \<not> WebSocket_isOpen w then Inl AssertionError
      else (case webSocket w of
              None \<Rightarrow> Inl TypeError
            | Some i \<Rightarrow> Inr (w\<lparr>effects := effects w @ [TransportSend i message]\<rparr>)))"

definition onOpen :: "WebSocket \<Rightarrow> WebSocket" where
  "onOpen w =
     (let w1 = w\<lparr>effects := effects w @ [DispatchEvent OPENED_EVENT]\<rparr>;
          w2 = w1\<lparr>reconnectAttempt := 0\<rparr>
      in w2\<lparr>nextReconnect := getNextReconnect w2 (reconnectAttempt w2)\<rparr>)"

definition onClose :: "CloseEvent \<Rightarrow> WebSocket \<Rightarrow> WebSocket" where
  "onClose event w =
     (let w1 = w\<lparr>effects := effects w @
                    [DispatchEvent (CLOSED_EVENT (code event) (reason event) (wasClean event))]\<rparr>;
          w2 = w1\<lparr>webSocket := None\<rparr>;
          w3 = (if closeExpected w2 then w2\<lparr>url := None, protocol := None\<rparr>
                else if autoReconnect w2 then
                  (let (t, w4) = Timer_callOnce (url w2) (protocol w2) (nextReconnect w2) w2;
                       w5 = w4\<lparr>reconnectTimer := Some t\<rparr>;
                       w6 = w5\<lparr>reconnectAttempt := Suc (reconnectAttempt w5)\<rparr>
                   in w6\<lparr>nextReconnect := getNextReconnect w6 (reconnectAttempt w6)\<rparr>)
                else w2)
      in w3\<lparr>closeExpected := False\<rparr>)"

definition onMessage :: "string \<Rightarrow> WebSocket \<Rightarrow> WebSocket" where
  "onMessage data w = w\<lparr>effects := effects w @ [DispatchEvent (MESSAGE_EVENT data)]\<rparr>"

definition onError :: "string \<Rightarrow> WebSocket \<Rightarrow> WebSocket" where
  "onError data w = w\<lparr>effects := effects w @ [DispatchEvent (ERROR_EVENT data)]\<rparr>"

subsection \<open>Runs of the socket\<close>

text \<open>
  What can happen to the object: a call of its public methods, the firing of a timer,
  and the four events of a transport. An exception of a call is the caller's affair and
  leaves the object as the failed call left it. A timer fires only while it is pending;
  its callback is the \<^verbatim>\<open>open\<close> call bound when it was scheduled.
\<close>

datatype ws_input =
    CallOpen string "string option"
  | CallClose
  | CallSend string
  | FireTimer nat
  | TransportOpened nat
  | TransportClosed nat CloseEvent
  | TransportMessage nat string
  | TransportErrored nat string

definition fireTimer :: "nat \<Rightarrow> WebSocket \<Rightarrow> WebSocket" where
  "fireTimer t w =
     (case find (\<lambda>x. timerId x = t) (pendingTimers w) of
        None \<Rightarrow> w
      | Some x \<Rightarrow>
          (let w1 = w\<lparr>pendingTimers := filter (\<lambda>y. timerId y \<noteq> t) (pendingTimers w),
                      effects := effects w @ [TimerFired t]\<rparr>
           in (case WebSocket_open (timerUrl x) (timerProtocol x) w1 of
                 Inl e \<Rightarrow> w1
               | Inr w2 \<Rightarrow> w2)))"

fun step :: "ws_input \<Rightarrow> WebSocket \<Rightarrow> WebSocket" where
  "step (CallOpen u p) w = (case WebSocket_open (Some u) p w of Inl e \<Rightarrow> w | Inr w1 \<Rightarrow> w1)"
| "step CallClose w = WebSocket_close w"
| "step (CallSend m) w = (case WebSocket_send m w of Inl e \<Rightarrow> w | Inr w1 \<Rightarrow> w1)"
| "step (FireTimer t) w = fireTimer t w"
| "step (TransportOpened i) w = onOpen (w\<lparr>transports := (transports w)[i := OPEN]\<rparr>)"
| "step (TransportClosed i event) w = onClose event (w\<lparr>transports := (transports w)[i := CLOSED]\<rparr>)"
| "step (TransportMessage i d) w = onMessage d w"
| "step (TransportErrored i d) w = onError d w"

fun run :: "ws_input list \<Rightarrow> WebSocket \<Rightarrow> WebSocket" where
  "run [] w = w"
| "run (e # es) w = run es (step e w)"

section \<open>goog.net.BrowserTestChannel: the two-stage connection test\<close>

text \<open>
  The embedding follows \<^verbatim>\<open>closure/goog/net/browsertestchannel.js\<close>. The owning
  \<^verbatim>\<open>goog.net.BrowserChannel\<close>, \<^verbatim>\<open>goog.net.ChannelRequest\<close>, \<^verbatim>\<open>goog.net.tmpnetwork\<close>
  and the statistics module are collaborators: every call into them is recorded, in
  order, in the list of effects a method returns, and the messages sent to the
  \<^verbatim>\<open>ChannelDebug\<close> logger are recorded as well. The clock \<^verbatim>\<open>Date.now()\<close> is an
  argument of the methods that read it, and the browser capability
  \<^verbatim>\<open>goog.net.ChannelRequest.supportsXhrStreaming()\<close> is the first argument of the
  methods that depend on it.
\<close>

subsection \<open>JavaScript values\<close>

text \<open>
  The values a response parser can hand back, as far as the channel looks at them:
  primitives and arrays (the parser is documented to return an array). Only
  truthiness and the elements \<open>0\<close> and \<open>1\<close> are ever inspected.
\<close>

datatype jsval =
    JUndefined
  | JNull
  | JBool bool
  | JNum int
  | JStr string
  | JArr "jsval list"

fun truthy :: "jsval \<Rightarrow> bool" where
  "truthy JUndefined = False"
| "truthy JNull = False"
| "truthy (JBool b) = b"
| "truthy (JNum n) = (n \<noteq> 0)"
| "truthy (JStr s) = (s \<noteq> [])"
| "truthy (JArr xs) = True"

text \<open>Reading past the end of an array yields \<^verbatim>\<open>undefined\<close>.\<close>

definition arrayIndex :: "jsval list \<Rightarrow> nat \<Rightarrow> jsval" where
  "arrayIndex xs i = (if i < length xs then xs ! i else JUndefined)"

text \<open>
  \<^verbatim>\<open>v[i]\<close> on an arbitrary value: a \<^verbatim>\<open>TypeError\<close> on \<^verbatim>\<open>null\<close> and \<^verbatim>\<open>undefined\<close>,
  a one-character string on a string, \<^verbatim>\<open>undefined\<close> on the other primitives.
\<close>

fun getIndex :: "jsval \<Rightarrow> nat \<Rightarrow> js_error + jsval" where
  "getIndex JUndefined i = Inl TypeError"
| "getIndex JNull i = Inl TypeError"
| "getIndex (JArr xs) i = Inr (arrayIndex xs i)"
| "getIndex (JStr s) i = Inr (if i < length s then JStr [s ! i] else JUndefined)"
| "getIndex (JBool b) i = Inr JUndefined"
| "getIndex (JNum n) i = Inr JUndefined"

text \<open>A \<^verbatim>\<open>?number\<close> member in a subtraction: \<^verbatim>\<open>null\<close> counts as \<open>0\<close>.\<close>

definition toNumber :: "int option \<Rightarrow> int" where
  "toNumber v = (case v of None \<Rightarrow> 0 | Some n \<Rightarrow> n)"

subsection \<open>Collaborators\<close>

datatype State = INIT | CHECKING_BLOCKED | CONNECTION_TESTING

text \<open>\<^verbatim>\<open>'...' + this.state_\<close>: the number of the state, or \<^verbatim>\<open>null\<close>.\<close>

fun stateString :: "State option \<Rightarrow> string" where
  "stateString None = ''null''"
| "stateString (Some INIT) = ''0''"
| "stateString (Some CHECKING_BLOCKED) = ''1''"
| "stateString (Some CONNECTION_TESTING) = ''2''"

text \<open>
  \<^verbatim>\<open>goog.net.ChannelRequest.Error\<close>: only \<^verbatim>\<open>BAD_DATA\<close> is named by the channel; the other
  kinds are passed through from the request.
\<close>

datatype ChannelRequestError = BAD_DATA | OTHER_ERROR nat

datatype Stat =
    TEST_STAGE_ONE_START
  | TEST_STAGE_ONE_FAILED
  | TEST_STAGE_TWO_START
  | TEST_STAGE_TWO_FAILED
  | TEST_STAGE_TWO_DATA_ONE
  | TEST_STAGE_TWO_DATA_TWO
  | TEST_STAGE_TWO_DATA_BOTH
  | CHANNEL_BLOCKED
  | PROXY
  | NOPROXY

datatype ServerReachability = REQUEST_MADE | REQUEST_SUCCEEDED | REQUEST_FAILED

datatype UriBase =
    ForwardChannelUri string
  | BackChannelUri jsval "string option"
  | DataUri jsval string

record Uri =
  uriBase :: UriBase
  uriParameters :: "(string \<times> string) list"
  uriUnique :: bool

definition newUri :: "UriBase \<Rightarrow> Uri" where
  "newUri b = \<lparr>uriBase = b, uriParameters = [], uriUnique = False\<rparr>"

definition setParameterValues :: "string \<Rightarrow> string \<Rightarrow> Uri \<Rightarrow> Uri" where
  "setParameterValues k v u = u\<lparr>uriParameters := (k, v) # filter (\<lambda>kv. fst kv \<noteq> k) (uriParameters u)\<rparr>"

definition makeUnique :: "Uri \<Rightarrow> Uri" where
  "makeUnique u = u\<lparr>uriUnique := True\<rparr>"

text \<open>
  The request object as the channel sees it: the three getters it reads, whether it
  has been cancelled, and the headers it was given.
\<close>

record ChannelRequest =
  getLastStatusCode :: int
  getSuccess :: bool
  getLastError :: "ChannelRequestError option"
  cancelled :: bool
  requestHeaders :: "(string \<times> string) list option"

text \<open>
  Modelled from the spec: \<^verbatim>\<open>goog.net.ChannelRequest.createChannelRequest\<close> is not part
  of the sources at hand; a new request has completed nothing yet (status \<open>-1\<close>, no
  success, no error) and is not cancelled.
\<close>

definition createChannelRequest :: ChannelRequest where
  "createChannelRequest =
     \<lparr>getLastStatusCode = - 1, getSuccess = False, getLastError = None,
      cancelled = False, requestHeaders = None\<rparr>"

text \<open>
  What the channel asks of its owner: the cached results of both stages and the
  correction of the host prefix.
\<close>

record BrowserChannel =
  getFirstTestResults :: "jsval list option"
  getSecondTestResults :: "bool option"
  correctHostPrefix :: "jsval \<Rightarrow> jsval"

datatype tc_effect =
    Debug string
  | DumpException js_error
  | NotifyStatEvent Stat
  | NotifyServerReachabilityEvent ServerReachability
  | TestConnectionFailure "ChannelRequestError option"
  | TestConnectionFinished bool
  | TestConnectionBlocked
  | XmlHttpGet Uri bool jsval bool
  | TridentGet Uri bool
  | RequestCancel
  | TestLoadImageWithRetries Uri int nat int

subsection \<open>The channel\<close>

record BrowserTestChannel =
  channel :: BrowserChannel
  parser :: "string \<Rightarrow> js_error + jsval"
  extraHeaders :: "(string \<times> string) list option"
  request :: "ChannelRequest option"
  receivedIntermediateResult :: bool
  startTime :: "int option"
  firstTime :: "int option"
  lastTime :: "int option"
  path :: "string option"
  state :: "State option"
  lastStatusCode :: int
  hostPrefix :: jsval
  blockedPrefix :: jsval

text \<open>
  The constructor with the prototype's defaults. The default parser,
  \<^verbatim>\<open>goog.json.NativeJsonProcessor\<close>, is not part of the sources at hand and is an
  argument.
\<close>

definition BrowserTestChannel_new :: "BrowserChannel \<Rightarrow> (string \<Rightarrow> js_error + jsval) \<Rightarrow> BrowserTestChannel" where
  "BrowserTestChannel_new owner jsonParser =
     \<lparr>channel = owner,
      parser = jsonParser,
      extraHeaders = None,
      request = None,
      receivedIntermediateResult = False,
      startTime = None,
      firstTime = None,
      lastTime = None,
      path = None,
      state = None,
      lastStatusCode = - 1,
      hostPrefix = JNull,
      blockedPrefix = JNull\<rparr>"

definition BLOCKED_TIMEOUT :: int where
  "BLOCKED_TIMEOUT = 5000"

definition BLOCKED_RETRIES :: nat where
  "BLOCKED_RETRIES = 3"

definition BLOCKED_PAUSE_BETWEEN_RETRIES :: int where
  "BLOCKED_PAUSE_BETWEEN_RETRIES = 2000"

definition MIN_TIME_EXPECTED_BETWEEN_DATA :: int where
  "MIN_TIME_EXPECTED_BETWEEN_DATA = 500"

definition setExtraHeaders :: "(string \<times> string) list option \<Rightarrow> BrowserTestChannel \<Rightarrow> BrowserTestChannel" where
  "setExtraHeaders hs s = s\<lparr>extraHeaders := hs\<rparr>"

definition setParser :: "(string \<Rightarrow> js_error + jsval) \<Rightarrow> BrowserTestChannel \<Rightarrow> BrowserTestChannel" where
  "setParser p s = s\<lparr>parser := p\<rparr>"

definition checkBlocked :: "BrowserTestChannel \<Rightarrow> BrowserTestChannel \<times> tc_effect list" where
  "checkBlocked s =
     (let uri = makeUnique (newUri (DataUri (blockedPrefix s) ''/mail/images/cleardot.gif''))
      in (s, [TestLoadImageWithRetries uri BLOCKED_TIMEOUT BLOCKED_RETRIES
                BLOCKED_PAUSE_BETWEEN_RETRIES,
              NotifyServerReachabilityEvent REQUEST_MADE]))"

text \<open>
  \<^verbatim>\<open>connectStage2_\<close>. In the message about the precomputed result, \<^verbatim>\<open>+\<close> binds
  tighter than \<^verbatim>\<open>?:\<close>, so the condition is a non-empty string and the logger always
  receives \<^verbatim>\<open>'Buffered'\<close>.
\<close>

definition connectStage2 :: "bool \<Rightarrow> BrowserTestChannel \<Rightarrow> BrowserTestChannel \<times> tc_effect list" where
  "connectStage2 supportsXhrStreaming s =
     (case getSecondTestResults (channel s) of
        Some secondTestResults \<Rightarrow>
          (s, [Debug ''TestConnection: starting stage 2'',
               Debug ''Buffered'',
               NotifyStatEvent TEST_STAGE_TWO_START] @
              (if secondTestResults
               then [NotifyStatEvent PROXY, TestConnectionFinished False]
               else [NotifyStatEvent NOPROXY, TestConnectionFinished True]))
      | None \<Rightarrow>
          (let s1 = s\<lparr>request := Some (createChannelRequest\<lparr>requestHeaders := extraHeaders s\<rparr>)\<rparr>;
               recvDataUri = newUri (BackChannelUri (hostPrefix s1) (path s1))
           in (s1, [Debug ''TestConnection: starting stage 2'',
                    NotifyStatEvent TEST_STAGE_TWO_START] @
                   (if \<not> supportsXhrStreaming
                    then [TridentGet (setParameterValues ''TYPE'' ''html'' recvDataUri)
                            (truthy (hostPrefix s1))]
                    else [XmlHttpGet (setParameterValues ''TYPE'' ''xmlhttp'' recvDataUri)
                            False (hostPrefix s1) False]))))"

definition connect :: "bool \<Rightarrow> string \<Rightarrow> int \<Rightarrow> BrowserTestChannel \<Rightarrow> BrowserTestChannel \<times> tc_effect list" where
  "connect supportsXhrStreaming p now s =
     (let s1 = s\<lparr>path := Some p\<rparr>;
          sendDataUri = newUri (ForwardChannelUri p);
          s2 = s1\<lparr>startTime := Some now\<rparr>
      in (case getFirstTestResults (channel s2) of
            Some firstTestResults \<Rightarrow>
              (let s3 = s2\<lparr>hostPrefix := correctHostPrefix (channel s2) (arrayIndex firstTestResults 0)\<rparr>;
                   s4 = s3\<lparr>blockedPrefix := arrayIndex firstTestResults 1\<rparr>
               in if truthy (blockedPrefix s4)
                  then (let (s5, es) = checkBlocked (s4\<lparr>state := Some CHECKING_BLOCKED\<rparr>)
                        in (s5, NotifyStatEvent TEST_STAGE_ONE_START # es))
                  else (let (s5, es) = connectStage2 supportsXhrStreaming
                                         (s4\<lparr>state := Some CONNECTION_TESTING\<rparr>)
                        in (s5, NotifyStatEvent TEST_STAGE_ONE_START # es)))
          | None \<Rightarrow>
              (let s3 = s2\<lparr>request := Some (createChannelRequest\<lparr>requestHeaders := extraHeaders s2\<rparr>)\<rparr>
               in (s3\<lparr>state := Some INIT\<rparr>,
                   [NotifyStatEvent TEST_STAGE_ONE_START,
                    XmlHttpGet (setParameterValues ''MODE'' ''init'' sendDataUri) False JNull True]))))"

definition checkBlockedCallback :: "bool \<Rightarrow> bool \<Rightarrow> BrowserTestChannel \<Rightarrow> BrowserTestChannel \<times> tc_effect list" where
  "checkBlockedCallback supportsXhrStreaming succeeded s =
     (let (s1, es) = (if succeeded
                      then connectStage2 supportsXhrStreaming (s\<lparr>state := Some CONNECTION_TESTING\<rparr>)
                      else (s, [NotifyStatEvent CHANNEL_BLOCKED, TestConnectionBlocked]))
      in (s1, es @ (if succeeded then [NotifyServerReachabilityEvent REQUEST_SUCCEEDED] else [])))"

definition abort :: "BrowserTestChannel \<Rightarrow> BrowserTestChannel \<times> tc_effect list" where
  "abort s =
     (let (s1, es) = (case request s of
                        None \<Rightarrow> (s, [])
                      | Some r \<Rightarrow> (s\<lparr>request := None\<rparr>, [RequestCancel]))
      in (s1\<lparr>lastStatusCode := - 1\<rparr>, es))"

definition checkForEarlyNonBuffered :: "bool \<Rightarrow> BrowserTestChannel \<Rightarrow> bool" where
  "checkForEarlyNonBuffered supportsXhrStreaming s =
     (let ms = toNumber (firstTime s) - toNumber (startTime s)
      in supportsXhrStreaming \<or> ms < MIN_TIME_EXPECTED_BETWEEN_DATA)"

text \<open>
  The two callbacks of a request return the channel, the effects, and the exception
  that escaped, if any. \<^verbatim>\<open>this.request_.cancel()\<close> and the getters of
  \<^verbatim>\<open>this.request_\<close> are a \<^verbatim>\<open>TypeError\<close> when there is no request.
\<close>

definition onRequestData ::
  "bool \<Rightarrow> ChannelRequest \<Rightarrow> string \<Rightarrow> int \<Rightarrow> BrowserTestChannel
     \<Rightarrow> BrowserTestChannel \<times> tc_effect list \<times> js_error option" where
  "onRequestData supportsXhrStreaming req responseText now s =
     (let s1 = s\<lparr>lastStatusCode := getLastStatusCode req\<rparr>
      in if state s1 = Some INIT then
           (if responseText = [] then
              (s1, [Debug ''TestConnection: Got data for stage 1'',
                    Debug ''TestConnection: Null responseText'',
                    TestConnectionFailure (Some BAD_DATA)], None)
            else
              (case parser s1 responseText of
                 Inl e \<Rightarrow>
                   (s1, [Debug ''TestConnection: Got data for stage 1'',
                         DumpException e,
                         TestConnectionFailure (Some BAD_DATA)], None)
               | Inr respArray \<Rightarrow>
                   (case getIndex respArray 0 of
                      Inl e \<Rightarrow> (s1, [Debug ''TestConnection: Got data for stage 1''], Some e)
                    | Inr v0 \<Rightarrow>
                        (let s2 = s1\<lparr>hostPrefix := correctHostPrefix (channel s1) v0\<rparr>
                         in (case getIndex respArray 1 of
                               Inl e \<Rightarrow> (s2, [Debug ''TestConnection: Got data for stage 1''], Some e)
                             | Inr v1 \<Rightarrow>
                                 (s2\<lparr>blockedPrefix := v1\<rparr>,
                                  [Debug ''TestConnection: Got data for stage 1''], None))))))
         else if state s1 = Some CONNECTION_TESTING then
           (if receivedIntermediateResult s1 then
              (s1\<lparr>lastTime := Some now\<rparr>, [NotifyStatEvent TEST_STAGE_TWO_DATA_TWO], None)
            else if responseText = ''11111'' then
              (let s2 = s1\<lparr>receivedIntermediateResult := True\<rparr>;
                   s3 = s2\<lparr>firstTime := Some now\<rparr>
               in if checkForEarlyNonBuffered supportsXhrStreaming s3 then
                    (let s4 = s3\<lparr>lastStatusCode := 200\<rparr>
                     in (case request s4 of
                           None \<Rightarrow> (s4, [NotifyStatEvent TEST_STAGE_TWO_DATA_ONE], Some TypeError)
                         | Some r \<Rightarrow>
                             (s4\<lparr>request := Some (r\<lparr>cancelled := True\<rparr>)\<rparr>,
                              [NotifyStatEvent TEST_STAGE_TWO_DATA_ONE,
                               RequestCancel,
                               Debug ''Test connection succeeded; using streaming connection'',
                               NotifyStatEvent NOPROXY,
                               TestConnectionFinished True], None)))
                  else (s3, [NotifyStatEvent TEST_STAGE_TWO_DATA_ONE], None))
            else
              (s1\<lparr>lastTime := Some now, firstTime := Some now,
                  receivedIntermediateResult := False\<rparr>,
               [NotifyStatEvent TEST_STAGE_TWO_DATA_BOTH], None))
         else (s1, [], None))"

definition onRequestComplete ::
  "bool \<Rightarrow> BrowserTestChannel \<Rightarrow> BrowserTestChannel \<times> tc_effect list \<times> js_error option" where
  "onRequestComplete supportsXhrStreaming s =
     (case request s of
        None \<Rightarrow> (s, [], Some TypeError)
      | Some r \<Rightarrow>
          (let s1 = s\<lparr>lastStatusCode := getLastStatusCode r\<rparr>
           in if \<not> getSuccess r then
                (s1, [Debug (''TestConnection: request failed, in state '' @ stateString (state s1))] @
                     (if state s1 = Some INIT then [NotifyStatEvent TEST_STAGE_ONE_FAILED]
                      else if state s1 = Some CONNECTION_TESTING
                      then [NotifyStatEvent TEST_STAGE_TWO_FAILED] else []) @
                     [TestConnectionFailure (getLastError r)], None)
              else if state s1 = Some INIT then
                (if truthy (blockedPrefix s1)
                 then (let (s2, es) = checkBlocked (s1\<lparr>state := Some CHECKING_BLOCKED\<rparr>)
                       in (s2, Debug ''TestConnection: request complete for initial check'' # es, None))
                 else (let (s2, es) = connectStage2 supportsXhrStreaming
                                        (s1\<lparr>state := Some CONNECTION_TESTING\<rparr>)
                       in (s2, Debug ''TestConnection: request complete for initial check'' # es, None)))
              else if state s1 = Some CONNECTION_TESTING then
                (let goodConn =
                       (if \<not> supportsXhrStreaming
                        then (let ms = toNumber (lastTime s1) - toNumber (firstTime s1)
                              in if ms < 200 then False else True)
                        else receivedIntermediateResult s1)
                 in if goodConn then
                      (s1, [Debug ''TestConnection: request complete for stage 2'',
                            Debug ''Test connection succeeded; using streaming connection'',
                            NotifyStatEvent NOPROXY,
                            TestConnectionFinished True], None)
                    else
                      (s1, [Debug ''TestConnection: request complete for stage 2'',
                            Debug ''Test connection failed; not using streaming'',
                            NotifyStatEvent PROXY,
                            TestConnectionFinished False], None))
              else (s1, [], None)))"

subsection \<open>Runs of the channel\<close>

text \<open>
  After \<^verbatim>\<open>connect\<close>, the channel is driven by the callbacks of its request, by the
  callback of the image test, and by \<^verbatim>\<open>abort\<close>. A request callback first brings
  the getters of the request up to date and is delivered to whatever request the
  channel holds; an exception ends the callback and keeps what was done before it.
\<close>

datatype tc_input =
    RequestData int string int
  | RequestComplete int bool "ChannelRequestError option"
  | BlockedResult bool
  | Abort

fun tc_step :: "bool \<Rightarrow> tc_input \<Rightarrow> BrowserTestChannel \<Rightarrow> BrowserTestChannel \<times> tc_effect list" where
  "tc_step x (RequestData c text now) s =
     (case request s of
        None \<Rightarrow> (s, [])
      | Some r \<Rightarrow>
          (let r1 = r\<lparr>getLastStatusCode := c\<rparr>;
               (s1, es, exn) = onRequestData x r1 text now (s\<lparr>request := Some r1\<rparr>)
           in (s1, es)))"
| "tc_step x (RequestComplete c ok err) s =
     (case request s of
        None \<Rightarrow> (s, [])
      | Some r \<Rightarrow>
          (let r1 = r\<lparr>getLastStatusCode := c, getSuccess := ok, getLastError := err\<rparr>;
               (s1, es, exn) = onRequestComplete x (s\<lparr>request := Some r1\<rparr>)
           in (s1, es)))"
| "tc_step x (BlockedResult succeeded) s = checkBlockedCallback x succeeded s"
| "tc_step x Abort s = abort s"

fun tc_run :: "bool \<Rightarrow> tc_input list \<Rightarrow> BrowserTestChannel \<Rightarrow> BrowserTestChannel \<times> tc_effect list" where
  "tc_run x [] s = (s, [])"
| "tc_run x (i # is) s =
     (let (s1, es) = tc_step x i s;
          (s2, es2) = tc_run x is s1
      in (s2, es @ es2))"

section \<open>Vocabulary of the properties\<close>

subsection \<open>For the socket\<close>

text \<open>The delays handed to \<^verbatim>\<open>goog.Timer.callOnce\<close>, in the order of the calls.\<close>

fun scheduledDelays :: "ws_effect list \<Rightarrow> int list" where
  "scheduledDelays [] = []"
| "scheduledDelays (TimerCallOnce t d # es) = d # scheduledDelays es"
| "scheduledDelays (e # es) = scheduledDelays es"

text \<open>
  The options that leave auto-reconnect enabled and the default back-off in place.
\<close>

definition defaultReconnect :: "Options option \<Rightarrow> bool" where
  "defaultReconnect opt_params =
     (case opt_params of
        None \<Rightarrow> True
      | Some p \<Rightarrow> opt_autoReconnect p \<noteq> Some False \<and> Option.is_none (opt_getNextReconnect p))"

text \<open>
  A run of consecutive unexpected closes: no transport opens (the counter would start
  over), and every close event finds \<^verbatim>\<open>closeExpected_\<close> false when it is handled.
  Anything else may happen in between.
\<close>

fun unexpectedCloses :: "ws_input list \<Rightarrow> WebSocket \<Rightarrow> bool" where
  "unexpectedCloses [] w = True"
| "unexpectedCloses (TransportOpened i # es) w = False"
| "unexpectedCloses (TransportClosed i ev # es) w =
     (\<not> closeExpected w \<and> unexpectedCloses es (step (TransportClosed i ev) w))"
| "unexpectedCloses (e # es) w = unexpectedCloses es (step e w)"

fun closeEvents :: "ws_input list \<Rightarrow> nat" where
  "closeEvents [] = 0"
| "closeEvents (TransportClosed i ev # es) = Suc (closeEvents es)"
| "closeEvents (e # es) = closeEvents es"

definition streak :: "nat \<Rightarrow> WebSocket \<Rightarrow> bool" where
  "streak k w \<longleftrightarrow>
     autoReconnect w \<and> getNextReconnect w = EXPONENTIAL_BACKOFF \<and>
     reconnectAttempt w = k \<and> nextReconnect w = EXPONENTIAL_BACKOFF k \<and>
     scheduledDelays (effects w) = map EXPONENTIAL_BACKOFF [0..<k]"

text \<open>A timer that is not pending and whose id has been handed out already.\<close>

definition timerGone :: "nat \<Rightarrow> WebSocket \<Rightarrow> bool" where
  "timerGone t w \<longleftrightarrow> t \<notin> timerId ` set (pendingTimers w) \<and> t < nextTimerId w"

definition timerKnown :: "WebSocket \<Rightarrow> bool" where
  "timerKnown w \<longleftrightarrow> (case reconnectTimer w of None \<Rightarrow> True | Some t \<Rightarrow> t < nextTimerId w)"

text \<open>
  The stretch between one opening and the close event of that transport: inputs that
  neither open a transport nor are a close event. A transport is opened by a call of
  \<^verbatim>\<open>open\<close> or by a reconnect timer that is pending when it fires.
\<close>

fun sameConnection :: "ws_input \<Rightarrow> bool" where
  "sameConnection (CallOpen u p) = False"
| "sameConnection (FireTimer t) = False"
| "sameConnection (TransportClosed i ev) = False"
| "sameConnection e = True"

fun opensTransport :: "ws_input \<Rightarrow> WebSocket \<Rightarrow> bool" where
  "opensTransport (CallOpen u p) w = True"
| "opensTransport (FireTimer t) w = (t \<in> timerId ` set (pendingTimers w))"
| "opensTransport e w = False"

definition idle :: "WebSocket \<Rightarrow> bool" where
  "idle w \<longleftrightarrow> webSocketSupported w \<and> webSocket w = None \<and> \<not> closeExpected w"

definition engaged :: "WebSocket \<Rightarrow> bool" where
  "engaged w \<longleftrightarrow> closeExpected w \<or> webSocket w \<noteq> None"

subsection \<open>For the channel\<close>

text \<open>The field \<^verbatim>\<open>blockedPrefix_\<close> is falsy before every input of the run and at its end.\<close>

fun blockedPrefixFalsy :: "bool \<Rightarrow> tc_input list \<Rightarrow> BrowserTestChannel \<Rightarrow> bool" where
  "blockedPrefixFalsy x [] s = (\<not> truthy (blockedPrefix s))"
| "blockedPrefixFalsy x (i # is) s =
     (\<not> truthy (blockedPrefix s) \<and> blockedPrefixFalsy x is (fst (tc_step x i s)))"

text \<open>The state is not \<open>CHECKING_BLOCKED\<close> before any input of the run, nor at its end.\<close>

fun neverCheckingBlocked :: "bool \<Rightarrow> tc_input list \<Rightarrow> BrowserTestChannel \<Rightarrow> bool" where
  "neverCheckingBlocked x [] s = (state s \<noteq> Some CHECKING_BLOCKED)"
| "neverCheckingBlocked x (i # is) s =
     (state s \<noteq> Some CHECKING_BLOCKED \<and> neverCheckingBlocked x is (fst (tc_step x i s)))"

text \<open>The calls back into the owner among the effects.\<close>

fun ownerCallbacks :: "tc_effect list \<Rightarrow> tc_effect list" where
  "ownerCallbacks [] = []"
| "ownerCallbacks (TestConnectionFailure e # es) = TestConnectionFailure e # ownerCallbacks es"
| "ownerCallbacks (TestConnectionFinished b # es) = TestConnectionFinished b # ownerCallbacks es"
| "ownerCallbacks (TestConnectionBlocked # es) = TestConnectionBlocked # ownerCallbacks es"
| "ownerCallbacks (e # es) = ownerCallbacks es"

fun nonSentinelData :: "tc_input \<Rightarrow> bool" where
  "nonSentinelData (RequestData c text now) = (text \<noteq> ''11111'')"
| "nonSentinelData i = False"

definition awaiting :: "BrowserTestChannel \<Rightarrow> bool" where
  "awaiting s \<longleftrightarrow>
     state s = Some CONNECTION_TESTING \<and> \<not> receivedIntermediateResult s \<and> request s \<noteq> None"

text \<open>
  Every image probe in a list of effects comes after a \<open>REQUEST_MADE\<close> notification of
  its own; the flag says whether such a notification is waiting for its probe.
\<close>

fun requestMadeBeforeProbe :: "bool \<Rightarrow> tc_effect list \<Rightarrow> bool" where
  "requestMadeBeforeProbe made [] = True"
| "requestMadeBeforeProbe made (NotifyServerReachabilityEvent REQUEST_MADE # es) =
     requestMadeBeforeProbe True es"
| "requestMadeBeforeProbe made (TestLoadImageWithRetries u t r p # es) =
     (made \<and> requestMadeBeforeProbe False es)"
| "requestMadeBeforeProbe made (e # es) = requestMadeBeforeProbe made es"

subsection \<open>Concrete collaborators\<close>

definition abnormalClosure :: CloseEvent where
  "abnormalClosure = \<lparr>code = 1006, reason = [], wasClean = False\<rparr>"

definition normalClosure :: CloseEvent where
  "normalClosure = \<lparr>code = 1000, reason = [], wasClean = True\<rparr>"

definition noReconnect :: Options where
  "noReconnect = \<lparr>opt_autoReconnect = Some False, opt_getNextReconnect = None, opt_binaryType = None\<rparr>"

definition freshOwner :: BrowserChannel where
  "freshOwner = \<lparr>getFirstTestResults = None, getSecondTestResults = None,
                 correctHostPrefix = (\<lambda>v. v)\<rparr>"

definition cachedUnblockedOwner :: BrowserChannel where
  "cachedUnblockedOwner =
     \<lparr>getFirstTestResults = Some [JStr ''hostA'', JStr []], getSecondTestResults = None,
      correctHostPrefix = (\<lambda>v. v)\<rparr>"

definition cachedBlockedOwner :: BrowserChannel where
  "cachedBlockedOwner =
     \<lparr>getFirstTestResults = Some [JStr ''hostA'', JStr ''blockedHostB''],
      getSecondTestResults = None, correctHostPrefix = (\<lambda>v. v)\<rparr>"

definition cachedBufferedOwner :: BrowserChannel where
  "cachedBufferedOwner =
     \<lparr>getFirstTestResults = None, getSecondTestResults = Some True,
      correctHostPrefix = (\<lambda>v. v)\<rparr>"

text \<open>A parser that knows one payload and raises on everything else.\<close>

definition onePayloadParser :: "string \<Rightarrow> js_error + jsval" where
  "onePayloadParser text =
     (if text = ''[hostA,]'' then Inr (JArr [JStr ''hostA'', JStr []]) else Inl ParserException)"

text \<open>
  Two channels right after \<^verbatim>\<open>connect\<close> on a browser with XHR streaming: one whose
  owner has no cached results, so that stage one is under way, and one whose owner has
  cached an unblocked first result, so that stage two is under way.
\<close>

definition stageOneChannel :: BrowserTestChannel where
  "stageOneChannel =
     fst (connect True ''/test'' 0 (BrowserTestChannel_new freshOwner onePayloadParser))"

definition stageTwoChannel :: BrowserTestChannel where
  "stageTwoChannel =
     fst (connect True ''/test'' 0 (BrowserTestChannel_new cachedUnblockedOwner onePayloadParser))"

section \<open>Properties of the socket\<close>

subsection \<open>Runs\<close>

lemma run_append: "run (xs @ ys) w = run ys (run xs w)"
  by (induction xs arbitrary: w) auto

lemma scheduledDelays_append:
  "scheduledDelays (xs @ ys) = scheduledDelays xs @ scheduledDelays ys"
  by (induction xs rule: scheduledDelays.induct) auto

lemma closeEvents_Cons: "closeEvents (e # es) = closeEvents [e] + closeEvents es"
  by (cases e) auto

subsection \<open>A streak of unexpected closes\<close>

lemma streak_clearReconnectTimer: "streak k w \<Longrightarrow> streak k (clearReconnectTimer w)"
  by (auto simp: streak_def clearReconnectTimer_def Timer_clear_def scheduledDelays_append
      split: option.splits)

lemma streak_open: "streak k w \<Longrightarrow> WebSocket_open u p w = Inr w1 \<Longrightarrow> streak k w1"
  using streak_clearReconnectTimer[of k w]
  by (auto simp: streak_def WebSocket_open_def Let_def scheduledDelays_append split: if_splits)

lemma streak_send: "streak k w \<Longrightarrow> WebSocket_send m w = Inr w1 \<Longrightarrow> streak k w1"
  by (auto simp: streak_def WebSocket_send_def scheduledDelays_append split: if_splits option.splits)

lemma streak_fireTimer: "streak k w \<Longrightarrow> streak k (fireTimer t w)"
proof (cases "find (\<lambda>x. timerId x = t) (pendingTimers w)")
  case None
  then show "streak k w \<Longrightarrow> streak k (fireTimer t w)" by (simp add: fireTimer_def)
next
  case (Some x)
  assume k: "streak k w"
  let ?w1 = "w\<lparr>pendingTimers := filter (\<lambda>y. timerId y \<noteq> t) (pendingTimers w),
                 effects := effects w @ [TimerFired t]\<rparr>"
  have k1: "streak k ?w1" using k by (simp add: streak_def scheduledDelays_append)
  show "streak k (fireTimer t w)"
    using Some k1 streak_open[OF k1]
    by (cases "WebSocket_open (timerUrl x) (timerProtocol x) ?w1") (auto simp: fireTimer_def Let_def)
qed

lemma streak_close: "streak k w \<Longrightarrow> streak k (WebSocket_close w)"
  using streak_clearReconnectTimer[of k w]
  by (auto simp: streak_def WebSocket_close_def Let_def scheduledDelays_append split: option.splits)

lemma streak_onClose: "streak k w \<Longrightarrow> \<not> closeExpected w \<Longrightarrow> streak (Suc k) (onClose ev w)"
  by (simp add: streak_def onClose_def Timer_callOnce_def Let_def scheduledDelays_append)

lemma streak_step:
  assumes "streak k w" and "unexpectedCloses [e] w"
  shows "streak (k + closeEvents [e]) (step e w)"
proof (cases e)
  case (CallOpen u p)
  then show ?thesis using assms(1) streak_open[of k w "Some u" p]
    by (cases "WebSocket_open (Some u) p w") auto
next
  case CallClose
  then show ?thesis using assms(1) streak_close by simp
next
  case (CallSend m)
  then show ?thesis using assms(1) streak_send[of k w m]
    by (cases "WebSocket_send m w") auto
next
  case (FireTimer t)
  then show ?thesis using assms(1) streak_fireTimer[of k w t] by simp
next
  case (TransportOpened i)
  then show ?thesis using assms(2) by simp
next
  case (TransportClosed i ev)
  have "streak k (w\<lparr>transports := (transports w)[i := CLOSED]\<rparr>)"
    using assms(1) by (simp add: streak_def)
  moreover have "\<not> closeExpected (w\<lparr>transports := (transports w)[i := CLOSED]\<rparr>)"
    using assms(2) TransportClosed by simp
  ultimately show ?thesis using TransportClosed streak_onClose by simp
next
  case (TransportMessage i d)
  then show ?thesis using assms(1) by (simp add: streak_def onMessage_def scheduledDelays_append)
next
  case (TransportErrored i d)
  then show ?thesis using assms(1) by (simp add: streak_def onError_def scheduledDelays_append)
qed

lemma unexpectedCloses_Cons:
  "unexpectedCloses (e # es) w \<longleftrightarrow> unexpectedCloses [e] w \<and> unexpectedCloses es (step e w)"
  by (cases e) auto

lemma streak_run:
  "streak k w \<Longrightarrow> unexpectedCloses es w \<Longrightarrow> streak (k + closeEvents es) (run es w)"
proof (induction es arbitrary: k w)
  case Nil
  then show ?case by simp
next
  case (Cons e es)
  from Cons.prems(2) have h: "unexpectedCloses [e] w" and t: "unexpectedCloses es (step e w)"
    using unexpectedCloses_Cons[of e es w] by auto
  have "streak (k + closeEvents [e]) (step e w)"
    using streak_step[OF Cons.prems(1) h] .
  then have "streak (k + closeEvents [e] + closeEvents es) (run es (step e w))"
    using Cons.IH t by simp
  then show ?case using closeEvents_Cons[of e es] by (simp add: add.assoc)
qed

lemma streak_new: "defaultReconnect opts \<Longrightarrow> streak 0 (WebSocket_new supported opts)"
  by (auto simp: defaultReconnect_def streak_def WebSocket_new_def Let_def Option.is_none_def
      split: option.splits)

text \<open>
  Claim C1. Take a socket as the constructor leaves it, with auto-reconnect enabled and
  the default back-off, and any run in which no transport opens and every close event
  is an unexpected one; timers may fire and \<^verbatim>\<open>open\<close> may be called in between. Then
  for every \<open>N\<close> from \<open>1\<close> to the number of close events, the delay of the \<open>N\<close>-th call of
  \<^verbatim>\<open>goog.Timer.callOnce\<close>, which the \<open>N\<close>-th close event makes, is
  \<open>min (2 ^ (N - 1) * 1000) 60000\<close> milliseconds.
\<close>

theorem nth_unexpected_close_delay:
  assumes "defaultReconnect opts"
    and "unexpectedCloses es (WebSocket_new supported opts)"
    and "1 \<le> N" and "N \<le> closeEvents es"
  shows "scheduledDelays (effects (run es (WebSocket_new supported opts))) ! (N - 1)
         = min (2 ^ (N - 1) * 1000) 60000"
proof -
  have "streak (0 + closeEvents es) (run es (WebSocket_new supported opts))"
    using streak_run[OF streak_new[OF assms(1)] assms(2)] .
  then have "scheduledDelays (effects (run es (WebSocket_new supported opts)))
             = map EXPONENTIAL_BACKOFF [0..<closeEvents es]"
    by (simp add: streak_def)
  then show ?thesis using assms(3,4)
    by (simp add: EXPONENTIAL_BACKOFF_def EXPONENTIAL_BACKOFF_CEILING_def Let_def)
qed

text \<open>
  A socket is opened and loses its transport seven times in a row, the reconnect timer
  firing after each loss but the last. The seventh delay is the ceiling, as
  \<open>2 ^ 6 * 1000\<close> exceeds it.
\<close>

theorem nth_unexpected_close_delay_witness:
  "defaultReconnect None \<and>
   unexpectedCloses
     [CallOpen ''ws://host'' None,
      TransportClosed 0 abnormalClosure, FireTimer 0,
      TransportClosed 1 abnormalClosure, FireTimer 1,
      TransportClosed 2 abnormalClosure, FireTimer 2,
      TransportClosed 3 abnormalClosure, FireTimer 3,
      TransportClosed 4 abnormalClosure, FireTimer 4,
      TransportClosed 5 abnormalClosure, FireTimer 5,
      TransportClosed 6 abnormalClosure] (WebSocket_new True None) \<and>
   scheduledDelays (effects (run
     [CallOpen ''ws://host'' None,
      TransportClosed 0 abnormalClosure, FireTimer 0,
      TransportClosed 1 abnormalClosure, FireTimer 1,
      TransportClosed 2 abnormalClosure, FireTimer 2,
      TransportClosed 3 abnormalClosure, FireTimer 3,
      TransportClosed 4 abnormalClosure, FireTimer 4,
      TransportClosed 5 abnormalClosure, FireTimer 5,
      TransportClosed 6 abnormalClosure] (WebSocket_new True None))) ! 6 = 60000"
proof -
  let ?es = "[CallOpen ''ws://host'' None,
      TransportClosed 0 abnormalClosure, FireTimer 0,
      TransportClosed 1 abnormalClosure, FireTimer 1,
      TransportClosed 2 abnormalClosure, FireTimer 2,
      TransportClosed 3 abnormalClosure, FireTimer 3,
      TransportClosed 4 abnormalClosure, FireTimer 4,
      TransportClosed 5 abnormalClosure, FireTimer 5,
      TransportClosed 6 abnormalClosure]"
  have d: "defaultReconnect None" by (simp add: defaultReconnect_def)
  have k: "unexpectedCloses ?es (WebSocket_new True None)"
    by (simp add: WebSocket_new_def WebSocket_open_def WebSocket_isOpen_def
        clearReconnectTimer_def Timer_clear_def Timer_callOnce_def onClose_def fireTimer_def
        Let_def)
  have n: "(7::nat) \<le> closeEvents ?es" by simp
  have "scheduledDelays (effects (run ?es (WebSocket_new True None))) ! (7 - 1)
        = min (2 ^ (7 - 1) * 1000) 60000"
    using nth_unexpected_close_delay[OF d k _ n] by simp
  then show ?thesis using d k by simp
qed

subsection \<open>The attempt counter\<close>

text \<open>
  Claim C6, as it stands, fails: with auto-reconnect disabled an unexpected close
  leaves the counter where it was. The socket below was built with
  \<^verbatim>\<open>autoReconnect: false\<close>, opened, and lost its transport without \<^verbatim>\<open>close()\<close>.
\<close>

theorem counter_unchanged_without_autoReconnect:
  "\<not> closeExpected (run [CallOpen ''ws://host'' None] (WebSocket_new True (Some noReconnect))) \<and>
   reconnectAttempt (run [CallOpen ''ws://host'' None, TransportClosed 0 abnormalClosure]
                       (WebSocket_new True (Some noReconnect)))
     = reconnectAttempt (run [CallOpen ''ws://host'' None] (WebSocket_new True (Some noReconnect)))"
  by (simp add: WebSocket_new_def noReconnect_def WebSocket_open_def WebSocket_isOpen_def
      clearReconnectTimer_def onClose_def Let_def)

text \<open>
  Claim C6, amended. The counter is \<open>0\<close> after every transport-open event. A close
  event that is unexpected (\<^verbatim>\<open>closeExpected_\<close> is false) adds one to it when
  auto-reconnect is enabled and leaves it unchanged when auto-reconnect is disabled; an
  expected close leaves it unchanged as well.
\<close>

theorem counter_reset_and_increment:
  "reconnectAttempt (onOpen w) = 0 \<and>
   reconnectAttempt (onClose event w) =
     (if closeExpected w then reconnectAttempt w
      else if autoReconnect w then Suc (reconnectAttempt w)
      else reconnectAttempt w)"
  by (simp add: onOpen_def onClose_def Timer_callOnce_def Let_def)

subsection \<open>Cancelling the reconnect timer\<close>

lemma gone_clear: "timerGone t w \<Longrightarrow> timerGone t (clearReconnectTimer w)"
  by (auto simp: timerGone_def clearReconnectTimer_def Timer_clear_def split: option.splits)

lemma fired_clear:
  "count_list (effects (clearReconnectTimer w)) (TimerFired t) = count_list (effects w) (TimerFired t)"
  by (auto simp: clearReconnectTimer_def Timer_clear_def split: option.splits)

lemma gone_open:
  "timerGone t w \<Longrightarrow> WebSocket_open u p w = Inr w1 \<Longrightarrow>
   timerGone t w1 \<and> count_list (effects w1) (TimerFired t) = count_list (effects w) (TimerFired t)"
  using gone_clear[of t w] fired_clear[of w t]
  by (auto simp: WebSocket_open_def Let_def timerGone_def split: if_splits)

lemma gone_close:
  "timerGone t w \<Longrightarrow>
   timerGone t (WebSocket_close w) \<and>
   count_list (effects (WebSocket_close w)) (TimerFired t) = count_list (effects w) (TimerFired t)"
  using gone_clear[of t w] fired_clear[of w t]
  by (auto simp: WebSocket_close_def Let_def timerGone_def split: option.splits)

lemma gone_send:
  "timerGone t w \<Longrightarrow> WebSocket_send m w = Inr w1 \<Longrightarrow>
   timerGone t w1 \<and> count_list (effects w1) (TimerFired t) = count_list (effects w) (TimerFired t)"
  by (auto simp: WebSocket_send_def timerGone_def split: if_splits option.splits)

lemma gone_onClose:
  "timerGone t w \<Longrightarrow>
   timerGone t (onClose ev w) \<and>
   count_list (effects (onClose ev w)) (TimerFired t) = count_list (effects w) (TimerFired t)"
  by (auto simp: onClose_def Timer_callOnce_def Let_def timerGone_def)

lemma gone_fire:
  "timerGone t w \<Longrightarrow>
   timerGone t (fireTimer t' w) \<and>
   count_list (effects (fireTimer t' w)) (TimerFired t) = count_list (effects w) (TimerFired t)"
proof (cases "find (\<lambda>x. timerId x = t') (pendingTimers w)")
  case None
  assume "timerGone t w"
  then show ?thesis using None by (simp add: fireTimer_def)
next
  case (Some x)
  assume g: "timerGone t w"
  have ne: "t' \<noteq> t" using Some g by (auto simp: timerGone_def find_Some_iff)
  let ?w1 = "w\<lparr>pendingTimers := filter (\<lambda>y. timerId y \<noteq> t') (pendingTimers w),
                 effects := effects w @ [TimerFired t']\<rparr>"
  have g1: "timerGone t ?w1" using g by (auto simp: timerGone_def)
  have c1: "count_list (effects ?w1) (TimerFired t) = count_list (effects w) (TimerFired t)"
    using ne by simp
  show ?thesis
    using Some g1 c1 gone_open[OF g1, of "timerUrl x" "timerProtocol x"]
    by (cases "WebSocket_open (timerUrl x) (timerProtocol x) ?w1") (auto simp: fireTimer_def Let_def)
qed

lemma gone_step:
  "timerGone t w \<Longrightarrow>
   timerGone t (step e w) \<and>
   count_list (effects (step e w)) (TimerFired t) = count_list (effects w) (TimerFired t)"
proof (cases e)
  case (CallOpen u p)
  assume "timerGone t w"
  then show ?thesis using CallOpen gone_open[of t w "Some u" p]
    by (cases "WebSocket_open (Some u) p w") auto
next
  case CallClose
  assume "timerGone t w"
  then show ?thesis using CallClose gone_close by simp
next
  case (CallSend m)
  assume "timerGone t w"
  then show ?thesis using CallSend gone_send[of t w m]
    by (cases "WebSocket_send m w") auto
next
  case (FireTimer t')
  assume "timerGone t w"
  then show ?thesis using FireTimer gone_fire by simp
next
  case (TransportClosed i ev)
  assume g: "timerGone t w"
  have "timerGone t (w\<lparr>transports := (transports w)[i := CLOSED]\<rparr>)"
    using g by (simp add: timerGone_def)
  from gone_onClose[OF this, of ev] show ?thesis using TransportClosed by simp
qed (auto simp: timerGone_def onOpen_def onMessage_def onError_def Let_def)

lemma gone_run:
  "timerGone t w \<Longrightarrow>
   timerGone t (run es w) \<and>
   count_list (effects (run es w)) (TimerFired t) = count_list (effects w) (TimerFired t)"
proof (induction es arbitrary: w)
  case Nil
  then show ?case by simp
next
  case (Cons e es)
  from gone_step[OF Cons.prems, of e] Cons.IH[of "step e w"] show ?case by simp
qed

lemma close_gone:
  "reconnectTimer w = Some t \<Longrightarrow> t < nextTimerId w \<Longrightarrow>
   timerGone t (WebSocket_close w) \<and>
   count_list (effects (WebSocket_close w)) (TimerFired t) = count_list (effects w) (TimerFired t) \<and>
   effects (WebSocket_close w) ! length (effects w) = TimerClear t"
  by (auto simp: WebSocket_close_def clearReconnectTimer_def Timer_clear_def Let_def timerGone_def
      nth_append split: option.splits)

lemma known_step: "timerKnown w \<Longrightarrow> timerKnown (step e w)"
proof (cases e)
  case (FireTimer t)
  assume k: "timerKnown w"
  show ?thesis
  proof (cases "find (\<lambda>x. timerId x = t) (pendingTimers w)")
    case None
    then show ?thesis using k FireTimer by (simp add: fireTimer_def)
  next
    case (Some x)
    then show ?thesis using k FireTimer
      by (auto simp: fireTimer_def Let_def timerKnown_def WebSocket_open_def
          clearReconnectTimer_def Timer_clear_def split: option.splits)
  qed
qed (auto simp: timerKnown_def WebSocket_open_def WebSocket_close_def WebSocket_send_def
      clearReconnectTimer_def Timer_clear_def Timer_callOnce_def onOpen_def onClose_def
      onMessage_def onError_def Let_def split: option.splits)

lemma known_run: "timerKnown w \<Longrightarrow> timerKnown (run es w)"
  by (induction es arbitrary: w) (auto simp: known_step)

lemma known_new: "timerKnown (WebSocket_new supported opts)"
  by (simp add: timerKnown_def WebSocket_new_def Let_def)

text \<open>
  The timer that \<^verbatim>\<open>close()\<close> does cancel is the one whose id the socket holds. Let
  the socket be in any state that a run from the constructor reaches, with \<open>t\<close> in
  \<^verbatim>\<open>reconnectTimer_\<close>. Then \<^verbatim>\<open>close()\<close> first clears \<open>t\<close> with \<^verbatim>\<open>goog.Timer\<close>, and
  whatever happens afterwards, \<open>t\<close> is not pending and the number of times \<open>t\<close> has fired
  stays what it was when \<^verbatim>\<open>close()\<close> was called.
\<close>

lemma close_cancels_held_timer:
  assumes "w = run before (WebSocket_new supported opts)"
    and "reconnectTimer w = Some t"
  shows "effects (WebSocket_close w) ! length (effects w) = TimerClear t \<and>
         t \<notin> timerId ` set (pendingTimers (run after (WebSocket_close w))) \<and>
         count_list (effects (run after (WebSocket_close w))) (TimerFired t)
           = count_list (effects w) (TimerFired t)"
proof -
  have "timerKnown w" using assms(1) known_run[OF known_new] by simp
  then have "t < nextTimerId w" using assms(2) by (simp add: timerKnown_def)
  from close_gone[OF assms(2) this]
  have g: "timerGone t (WebSocket_close w)"
    and c: "count_list (effects (WebSocket_close w)) (TimerFired t)
            = count_list (effects w) (TimerFired t)"
    and x: "effects (WebSocket_close w) ! length (effects w) = TimerClear t"
    by auto
  from gone_run[OF g, of after] c x show ?thesis by (simp add: timerGone_def)
qed

text \<open>
  Claim C7 says that \<^verbatim>\<open>close()\<close>, called while a reconnect timer scheduled by an
  earlier unexpected close is pending, cancels that timer, so that it never fires and
  no \<^verbatim>\<open>open\<close> call comes from it. The code does not do this for every such timer.
  \<^verbatim>\<open>open\<close> is accepted while the transport of an earlier \<^verbatim>\<open>open\<close> is still connecting,
  and \<^verbatim>\<open>onClose_\<close> stores the id of the timer it schedules over the id the socket
  held, without clearing that timer first. Below, \<^verbatim>\<open>open\<close> is called twice and both
  transports are lost: the timers \<open>0\<close> and \<open>1\<close> are pending and the socket holds \<open>1\<close>.
  \<^verbatim>\<open>close()\<close> clears timer \<open>1\<close> and leaves timer \<open>0\<close> pending; timer \<open>0\<close> then fires and
  its \<^verbatim>\<open>open\<close> call creates transport \<open>2\<close>, although the comment in \<^verbatim>\<open>close\<close> reads
  \<^verbatim>\<open>Clear any pending attempts to reconnect\<close>.
\<close>

theorem orphaned_reconnect_timer_fires_after_close:
  "reconnectTimer (run [CallOpen ''ws://host'' None, CallOpen ''ws://host'' None,
                        TransportClosed 0 abnormalClosure, TransportClosed 1 abnormalClosure]
                     (WebSocket_new True None)) = Some 1 \<and>
   map timerId (pendingTimers (run [CallOpen ''ws://host'' None, CallOpen ''ws://host'' None,
                        TransportClosed 0 abnormalClosure, TransportClosed 1 abnormalClosure]
                     (WebSocket_new True None))) = [0, 1] \<and>
   map timerId (pendingTimers (run [CallOpen ''ws://host'' None, CallOpen ''ws://host'' None,
                        TransportClosed 0 abnormalClosure, TransportClosed 1 abnormalClosure,
                        CallClose]
                     (WebSocket_new True None))) = [0] \<and>
   effects (run [CallOpen ''ws://host'' None, CallOpen ''ws://host'' None,
                 TransportClosed 0 abnormalClosure, TransportClosed 1 abnormalClosure,
                 CallClose, FireTimer 0]
              (WebSocket_new True None)) =
     [NewWebSocket 0 (Some ''ws://host'') None BLOB,
      NewWebSocket 1 (Some ''ws://host'') None BLOB,
      DispatchEvent (CLOSED_EVENT 1006 [] False),
      TimerCallOnce 0 1000,
      DispatchEvent (CLOSED_EVENT 1006 [] False),
      TimerCallOnce 1 2000,
      TimerClear 1,
      TimerFired 0,
      NewWebSocket 2 (Some ''ws://host'') None BLOB]"
  by (simp add: WebSocket_new_def WebSocket_open_def WebSocket_isOpen_def WebSocket_close_def
      clearReconnectTimer_def Timer_clear_def Timer_callOnce_def onClose_def fireTimer_def
      abnormalClosure_def EXPONENTIAL_BACKOFF_def EXPONENTIAL_BACKOFF_CEILING_def Let_def)

subsection \<open>Expected and unexpected closes\<close>

lemma closeExpected_onClose: "closeExpected (onClose ev w) = False"
  by (simp add: onClose_def Timer_callOnce_def Let_def)

lemma idle_onClose: "webSocketSupported w \<Longrightarrow> idle (onClose ev w)"
  by (simp add: idle_def onClose_def Timer_callOnce_def Let_def)

lemma idle_step: "idle w \<Longrightarrow> sameConnection e \<Longrightarrow> idle (step e w)"
  by (cases e) (auto simp: idle_def WebSocket_close_def clearReconnectTimer_def Timer_clear_def
      WebSocket_send_def WebSocket_isOpen_def onOpen_def onMessage_def onError_def Let_def
      split: option.splits)

lemma idle_run: "idle w \<Longrightarrow> list_all sameConnection es \<Longrightarrow> idle (run es w)"
  by (induction es arbitrary: w) (auto simp: idle_step)

lemma idle_open:
  "idle w \<Longrightarrow> \<exists>w1. WebSocket_open u p w = Inr w1 \<and> webSocket w1 \<noteq> None \<and> \<not> closeExpected w1"
  by (auto simp: idle_def WebSocket_open_def WebSocket_isOpen_def clearReconnectTimer_def
      Timer_clear_def Let_def split: option.splits)

lemma idle_opens:
  "idle w \<Longrightarrow> opensTransport e w \<Longrightarrow> webSocket (step e w) \<noteq> None \<and> \<not> closeExpected (step e w)"
proof (cases e)
  case (CallOpen u p)
  assume "idle w"
  from idle_open[OF this, of "Some u" p] show ?thesis using CallOpen by auto
next
  case (FireTimer t)
  assume i: "idle w" and o: "opensTransport e w"
  then obtain x where x: "find (\<lambda>x. timerId x = t) (pendingTimers w) = Some x"
    using FireTimer
    by (cases "find (\<lambda>x. timerId x = t) (pendingTimers w)") (auto simp: find_None_iff)
  let ?w1 = "w\<lparr>pendingTimers := filter (\<lambda>y. timerId y \<noteq> t) (pendingTimers w),
                 effects := effects w @ [TimerFired t]\<rparr>"
  have "idle ?w1" using i by (simp add: idle_def)
  from idle_open[OF this, of "timerUrl x" "timerProtocol x"] show ?thesis
    using FireTimer x by (auto simp: fireTimer_def Let_def)
qed auto

lemma engaged_step:
  "engaged w \<Longrightarrow> sameConnection e \<Longrightarrow>
   engaged (step e w) \<and> closeExpected (step e w) = (closeExpected w \<or> e = CallClose)"
  by (cases e) (auto simp: engaged_def WebSocket_close_def clearReconnectTimer_def Timer_clear_def
      WebSocket_send_def WebSocket_isOpen_def onOpen_def onMessage_def onError_def Let_def
      split: option.splits)

lemma engaged_run:
  "engaged w \<Longrightarrow> list_all sameConnection es \<Longrightarrow>
   closeExpected (run es w) = (closeExpected w \<or> CallClose \<in> set es)"
proof (induction es arbitrary: w)
  case Nil
  then show ?case by simp
next
  case (Cons e es)
  from engaged_step[OF Cons.prems(1), of e] Cons.prems(2)
  have 1: "engaged (step e w)"
    and 2: "closeExpected (step e w) = (closeExpected w \<or> e = CallClose)"
    by auto
  from Cons.IH[OF 1] Cons.prems(2) 2 show ?case by auto
qed

text \<open>
  Whatever the state of the socket, after a close event has been handled
  \<^verbatim>\<open>closeExpected_\<close> is false, be the close a deliberate or an unexpected one. While
  one transport is live at a time, the next close event is classified by what happens
  after the earlier one alone: when the next transport is opened (by a call of
  \<^verbatim>\<open>open\<close> or by the reconnect timer), and its close event arrives with no other
  opening in between, that event finds \<^verbatim>\<open>closeExpected_\<close> true exactly if
  \<^verbatim>\<open>close()\<close> was called since the opening.
\<close>

lemma close_event_resets_closeExpected:
  "closeExpected (onClose event w) = False \<and>
   (webSocketSupported w \<and> list_all sameConnection before \<and>
    opensTransport opening (run before (onClose event w)) \<and> list_all sameConnection since
      \<longrightarrow> closeExpected (run (before @ opening # since) (onClose event w))
            = (CallClose \<in> set since))"
proof (intro conjI impI)
  show "closeExpected (onClose event w) = False" by (rule closeExpected_onClose)
next
  assume a: "webSocketSupported w \<and> list_all sameConnection before \<and>
    opensTransport opening (run before (onClose event w)) \<and> list_all sameConnection since"
  have i: "idle (run before (onClose event w))"
    using idle_run[OF idle_onClose] a by simp
  from idle_opens[OF i] a
  have e: "engaged (step opening (run before (onClose event w)))"
    and n: "\<not> closeExpected (step opening (run before (onClose event w)))"
    by (auto simp: engaged_def)
  from engaged_run[OF e] a n
  show "closeExpected (run (before @ opening # since) (onClose event w)) = (CallClose \<in> set since)"
    by (simp add: run_append)
qed

text \<open>
  Claim C9 says that \<^verbatim>\<open>closeExpected_\<close> is false after every close event that has
  been handled, so that each close event is classified by whether \<^verbatim>\<open>close()\<close> was
  called since the preceding \<^verbatim>\<open>open\<close>, never by earlier closes. The flag is indeed
  false after every close event (the lemma above), but the code does not classify as
  the claim says once \<^verbatim>\<open>open\<close> is called before the close event of the transport that
  \<^verbatim>\<open>close()\<close> shut down has arrived: the socket has one flag for all its transports,
  \<^verbatim>\<open>open\<close> does not reset it, and the close event of any transport consumes it.

  First run: \<^verbatim>\<open>open(); close(); open(); close()\<close>, then the two close events. The
  close event of transport \<open>0\<close> resets the flag, so the close event of transport \<open>1\<close>,
  which \<^verbatim>\<open>close()\<close> shut down as well, is taken for an unexpected one and a reconnect
  is scheduled. Second run: a socket is opened and connected, closed, opened and
  connected again, and the new transport is lost before the close event of the old
  one has arrived. The flag is still set from the \<^verbatim>\<open>close()\<close> before the second
  \<^verbatim>\<open>open\<close>, so the loss is taken for an expected close: the URL is cleared and no
  reconnect is scheduled. The comment in \<^verbatim>\<open>close\<close> reads: close is expected
  after a direct call, and is considered unexpected when opening the connection fails
  or the connection is lost after being connected.
\<close>

theorem close_classified_by_stale_flag:
  "closeExpected (run [CallOpen ''ws://host'' None, CallClose, CallOpen ''ws://host'' None, CallClose]
                    (WebSocket_new True None)) \<and>
   \<not> closeExpected (run [CallOpen ''ws://host'' None, CallClose, CallOpen ''ws://host'' None,
                         CallClose, TransportClosed 0 normalClosure]
                    (WebSocket_new True None)) \<and>
   effects (run [CallOpen ''ws://host'' None, CallClose, CallOpen ''ws://host'' None, CallClose,
                 TransportClosed 0 normalClosure, TransportClosed 1 normalClosure]
              (WebSocket_new True None)) =
     [NewWebSocket 0 (Some ''ws://host'') None BLOB,
      TransportClose 0,
      NewWebSocket 1 (Some ''ws://host'') None BLOB,
      TransportClose 1,
      DispatchEvent (CLOSED_EVENT 1000 [] True),
      DispatchEvent (CLOSED_EVENT 1000 [] True),
      TimerCallOnce 0 1000] \<and>
   closeExpected (run [CallOpen ''ws://host'' None, TransportOpened 0, CallClose,
                       CallOpen ''ws://host'' None, TransportOpened 1]
                    (WebSocket_new True None)) \<and>
   url (run [CallOpen ''ws://host'' None, TransportOpened 0, CallClose,
             CallOpen ''ws://host'' None, TransportOpened 1, TransportClosed 1 abnormalClosure]
          (WebSocket_new True None)) = None \<and>
   pendingTimers (run [CallOpen ''ws://host'' None, TransportOpened 0, CallClose,
             CallOpen ''ws://host'' None, TransportOpened 1, TransportClosed 1 abnormalClosure]
          (WebSocket_new True None)) = []"
  by (simp add: WebSocket_new_def WebSocket_open_def WebSocket_isOpen_def WebSocket_close_def
      clearReconnectTimer_def Timer_clear_def Timer_callOnce_def onClose_def onOpen_def
      abnormalClosure_def normalClosure_def EXPONENTIAL_BACKOFF_def
      EXPONENTIAL_BACKOFF_CEILING_def Let_def)

section \<open>Properties of the test channel\<close>

subsection \<open>What the methods leave alone\<close>

lemma connectStage2_state: "state (fst (connectStage2 x s)) = state s"
  by (auto simp: connectStage2_def Let_def split: option.splits)

lemma connectStage2_blockedPrefix: "blockedPrefix (fst (connectStage2 x s)) = blockedPrefix s"
  by (auto simp: connectStage2_def Let_def split: option.splits)

lemma connectStage2_no_succeeded:
  "NotifyServerReachabilityEvent REQUEST_SUCCEEDED \<notin> set (snd (connectStage2 x s))"
  by (auto simp: connectStage2_def Let_def split: option.splits)

lemma checkBlocked_keeps: "fst (checkBlocked s) = s"
  by (simp add: checkBlocked_def Let_def)

lemma state_onRequestData: "state (fst (onRequestData x req t now s)) = state s"
  by (auto simp: onRequestData_def Let_def split: option.splits sum.splits)

lemma state_abort: "state (fst (abort s)) = state s"
  by (auto simp: abort_def split: option.splits)

lemma ownerCallbacks_append: "ownerCallbacks (xs @ ys) = ownerCallbacks xs @ ownerCallbacks ys"
  by (induction xs rule: ownerCallbacks.induct) auto

lemma tc_run_snoc:
  "tc_run x (inputs @ [i]) s =
     (fst (tc_step x i (fst (tc_run x inputs s))),
      snd (tc_run x inputs s) @ snd (tc_step x i (fst (tc_run x inputs s))))"
  by (induction inputs arbitrary: s) (auto split: prod.splits)

lemma stageOneChannel_eq:
  "stageOneChannel =
     \<lparr>channel = freshOwner, parser = onePayloadParser, extraHeaders = None,
      request = Some createChannelRequest, receivedIntermediateResult = False,
      startTime = Some 0, firstTime = None, lastTime = None, path = Some ''/test'',
      state = Some INIT, lastStatusCode = - 1, hostPrefix = JNull, blockedPrefix = JNull\<rparr>"
  by (simp add: stageOneChannel_def connect_def BrowserTestChannel_new_def freshOwner_def
      createChannelRequest_def Let_def)

lemma stageTwoChannel_eq:
  "stageTwoChannel =
     \<lparr>channel = cachedUnblockedOwner, parser = onePayloadParser, extraHeaders = None,
      request = Some createChannelRequest, receivedIntermediateResult = False,
      startTime = Some 0, firstTime = None, lastTime = None, path = Some ''/test'',
      state = Some CONNECTION_TESTING, lastStatusCode = - 1, hostPrefix = JStr ''hostA'',
      blockedPrefix = JStr []\<rparr>"
  by (simp add: stageTwoChannel_def connect_def connectStage2_def BrowserTestChannel_new_def
      cachedUnblockedOwner_def createChannelRequest_def arrayIndex_def Let_def)

subsection \<open>Stage two: the first chunk\<close>

text \<open>
  Claim C2. The channel is in \<open>CONNECTION_TESTING\<close> on a browser with XHR streaming,
  its request is in flight, and no chunk \<^verbatim>\<open>"11111"\<close> has been seen yet. When the chunk
  \<^verbatim>\<open>"11111"\<close> arrives, the handler cancels the request and calls
  \<^verbatim>\<open>testConnectionFinished(this, true)\<close> at once; the state is left as it is and status
  \<open>200\<close> is assumed. On such a browser this holds whatever time has passed since
  \<^verbatim>\<open>connect()\<close>, so in particular when less than 500 ms have passed.
\<close>

theorem early_exit_on_first_sentinel:
  assumes "state s = Some CONNECTION_TESTING"
    and "\<not> receivedIntermediateResult s"
    and "request s = Some r"
  shows "onRequestData True req ''11111'' now s =
           (s\<lparr>lastStatusCode := 200, receivedIntermediateResult := True, firstTime := Some now,
              request := Some (r\<lparr>cancelled := True\<rparr>)\<rparr>,
            [NotifyStatEvent TEST_STAGE_TWO_DATA_ONE,
             RequestCancel,
             Debug ''Test connection succeeded; using streaming connection'',
             NotifyStatEvent NOPROXY,
             TestConnectionFinished True],
            None)"
  using assms by (simp add: onRequestData_def checkForEarlyNonBuffered_def Let_def)

text \<open>The sentinel arrives 100 ms after \<^verbatim>\<open>connect()\<close> on the channel that is in stage two.\<close>

theorem early_exit_on_first_sentinel_witness:
  "state stageTwoChannel = Some CONNECTION_TESTING \<and>
   \<not> receivedIntermediateResult stageTwoChannel \<and>
   request stageTwoChannel = Some createChannelRequest \<and>
   100 - toNumber (startTime stageTwoChannel) < MIN_TIME_EXPECTED_BETWEEN_DATA \<and>
   fst (snd (onRequestData True createChannelRequest ''11111'' 100 stageTwoChannel)) =
     [NotifyStatEvent TEST_STAGE_TWO_DATA_ONE,
      RequestCancel,
      Debug ''Test connection succeeded; using streaming connection'',
      NotifyStatEvent NOPROXY,
      TestConnectionFinished True] \<and>
   snd (snd (onRequestData True createChannelRequest ''11111'' 100 stageTwoChannel)) = None"
proof -
  have 1: "state stageTwoChannel = Some CONNECTION_TESTING" by (simp add: stageTwoChannel_eq)
  have 2: "\<not> receivedIntermediateResult stageTwoChannel" by (simp add: stageTwoChannel_eq)
  have 3: "request stageTwoChannel = Some createChannelRequest" by (simp add: stageTwoChannel_eq)
  have 4: "100 - toNumber (startTime stageTwoChannel) < MIN_TIME_EXPECTED_BETWEEN_DATA"
    by (simp add: stageTwoChannel_eq toNumber_def MIN_TIME_EXPECTED_BETWEEN_DATA_def)
  from early_exit_on_first_sentinel[OF 1 2 3, of createChannelRequest 100] 1 2 3 4
  show ?thesis by simp
qed

subsection \<open>Stage two: cached results\<close>

text \<open>
  Claim C3, as it stands, fails: the owner has cached \<^verbatim>\<open>true\<close> as the result of the
  second test, and the channel does not report \<^verbatim>\<open>true\<close>; it reports \<^verbatim>\<open>false\<close>.
\<close>

theorem cached_true_is_not_reported_as_true:
  "getSecondTestResults (channel (BrowserTestChannel_new cachedBufferedOwner onePayloadParser))
     = Some True \<and>
   TestConnectionFinished True \<notin>
     set (snd (connectStage2 True (BrowserTestChannel_new cachedBufferedOwner onePayloadParser))) \<and>
   TestConnectionFinished False \<in>
     set (snd (connectStage2 True (BrowserTestChannel_new cachedBufferedOwner onePayloadParser)))"
  by (simp add: connectStage2_def BrowserTestChannel_new_def cachedBufferedOwner_def)

text \<open>
  Claim C3, amended. When the owner has a cached result of the second test,
  \<^verbatim>\<open>connectStage2_\<close> creates no request and issues none, leaves the channel as it is,
  and calls \<^verbatim>\<open>testConnectionFinished\<close> at once with the negation of the cached value:
  a cached \<^verbatim>\<open>true\<close> stands for a buffered connection and is reported as \<^verbatim>\<open>false\<close>, a cached
  \<^verbatim>\<open>false\<close> is reported as \<^verbatim>\<open>true\<close>.
\<close>

theorem cached_stage2_result_is_negated:
  assumes "getSecondTestResults (channel s) = Some cached"
  shows "connectStage2 x s =
           (s, [Debug ''TestConnection: starting stage 2'',
                Debug ''Buffered'',
                NotifyStatEvent TEST_STAGE_TWO_START,
                NotifyStatEvent (if cached then PROXY else NOPROXY),
                TestConnectionFinished (\<not> cached)])"
  using assms by (simp add: connectStage2_def)

theorem cached_stage2_result_is_negated_witness:
  "getSecondTestResults (channel (BrowserTestChannel_new cachedBufferedOwner onePayloadParser))
     = Some True \<and>
   connectStage2 True (BrowserTestChannel_new cachedBufferedOwner onePayloadParser) =
     (BrowserTestChannel_new cachedBufferedOwner onePayloadParser,
      [Debug ''TestConnection: starting stage 2'',
       Debug ''Buffered'',
       NotifyStatEvent TEST_STAGE_TWO_START,
       NotifyStatEvent PROXY,
       TestConnectionFinished False])"
proof -
  have h: "getSecondTestResults (channel (BrowserTestChannel_new cachedBufferedOwner onePayloadParser))
             = Some True"
    by (simp add: BrowserTestChannel_new_def cachedBufferedOwner_def)
  from cached_stage2_result_is_negated[OF h, of True] h show ?thesis by simp
qed

subsection \<open>Stage one: a falsy blocked prefix\<close>

lemma state_connect:
  "\<not> truthy (blockedPrefix (fst (connect x p now s))) \<Longrightarrow>
   state (fst (connect x p now s)) \<noteq> Some CHECKING_BLOCKED"
  by (auto simp: connect_def Let_def case_prod_beta checkBlocked_keeps connectStage2_state
      connectStage2_blockedPrefix split: option.splits if_splits)

lemma state_onRequestComplete:
  "\<not> truthy (blockedPrefix s) \<Longrightarrow> state s \<noteq> Some CHECKING_BLOCKED \<Longrightarrow>
   state (fst (onRequestComplete x s)) \<noteq> Some CHECKING_BLOCKED"
  by (auto simp: onRequestComplete_def Let_def case_prod_beta connectStage2_state split: option.splits)

lemma state_checkBlockedCallback:
  "state s \<noteq> Some CHECKING_BLOCKED \<Longrightarrow>
   state (fst (checkBlockedCallback x b s)) \<noteq> Some CHECKING_BLOCKED"
  by (auto simp: checkBlockedCallback_def Let_def case_prod_beta connectStage2_state)

lemma state_tc_step:
  "\<not> truthy (blockedPrefix s) \<Longrightarrow> state s \<noteq> Some CHECKING_BLOCKED \<Longrightarrow>
   state (fst (tc_step x i s)) \<noteq> Some CHECKING_BLOCKED"
proof (cases i)
  case (RequestData c t now)
  assume "state s \<noteq> Some CHECKING_BLOCKED"
  then show ?thesis using RequestData
    by (auto simp: Let_def case_prod_beta state_onRequestData split: option.splits)
next
  case (RequestComplete c ok err)
  assume a: "\<not> truthy (blockedPrefix s)" "state s \<noteq> Some CHECKING_BLOCKED"
  show ?thesis
  proof (cases "request s")
    case None
    then show ?thesis using a RequestComplete by simp
  next
    case (Some r)
    let ?s = "s\<lparr>request := Some (r\<lparr>getLastStatusCode := c, getSuccess := ok, getLastError := err\<rparr>)\<rparr>"
    have "state (fst (onRequestComplete x ?s)) \<noteq> Some CHECKING_BLOCKED"
      using a by (intro state_onRequestComplete) auto
    then show ?thesis using Some RequestComplete by (simp add: Let_def case_prod_beta)
  qed
next
  case (BlockedResult b)
  assume "state s \<noteq> Some CHECKING_BLOCKED"
  then show ?thesis using BlockedResult state_checkBlockedCallback by simp
next
  case Abort
  assume "state s \<noteq> Some CHECKING_BLOCKED"
  then show ?thesis using Abort state_abort by simp
qed

lemma blockedPrefixFalsy_head: "blockedPrefixFalsy x inputs s \<Longrightarrow> \<not> truthy (blockedPrefix s)"
  by (cases inputs) auto

lemma never_run:
  "blockedPrefixFalsy x inputs s \<Longrightarrow> state s \<noteq> Some CHECKING_BLOCKED \<Longrightarrow>
   neverCheckingBlocked x inputs s"
proof (induction inputs arbitrary: s)
  case Nil
  then show ?case by simp
next
  case (Cons i inputs)
  have f: "\<not> truthy (blockedPrefix s)" using Cons.prems(1) by simp
  from state_tc_step[OF f Cons.prems(2)] Cons.IH[of "fst (tc_step x i s)"] Cons.prems
  show ?case by simp
qed

text \<open>
  Claim C4, as it stands, fails where the result comes from the owner's cache: with the
  cached first result \<^verbatim>\<open>["hostA", ""]\<close>, \<^verbatim>\<open>connect\<close> itself moves the channel from no
  state to \<open>CONNECTION_TESTING\<close> and starts stage two. No request of stage one exists
  and no completion handler has run.
\<close>

theorem cached_result_starts_stage2_in_connect:
  "state (BrowserTestChannel_new cachedUnblockedOwner onePayloadParser) = None \<and>
   state (fst (connect True ''/test'' 0 (BrowserTestChannel_new cachedUnblockedOwner onePayloadParser)))
     = Some CONNECTION_TESTING \<and>
   Debug ''TestConnection: starting stage 2'' \<in>
     set (snd (connect True ''/test'' 0 (BrowserTestChannel_new cachedUnblockedOwner onePayloadParser))) \<and>
   Debug ''TestConnection: request complete for initial check'' \<notin>
     set (snd (connect True ''/test'' 0 (BrowserTestChannel_new cachedUnblockedOwner onePayloadParser)))"
  by (simp add: connect_def connectStage2_def BrowserTestChannel_new_def cachedUnblockedOwner_def
      arrayIndex_def Let_def)

text \<open>
  Claim C4, amended. In every run that starts with \<^verbatim>\<open>connect\<close> and in which
  \<^verbatim>\<open>blockedPrefix_\<close> is falsy throughout (the first result, cached or parsed from the
  response, gives a falsy blocked prefix), the state is never \<open>CHECKING_BLOCKED\<close>. The
  machine goes to \<open>CONNECTION_TESTING\<close> directly and runs \<^verbatim>\<open>connectStage2_\<close>: from
  the completion handler of the stage-one request when that request succeeds in state
  \<open>INIT\<close>, and from \<^verbatim>\<open>connect\<close> itself when the owner has the first result cached, in
  which case \<open>INIT\<close> is skipped.
\<close>

theorem falsy_blockedPrefix_skips_checking_blocked:
  "(blockedPrefixFalsy x inputs (fst (connect x p now s))
      \<longrightarrow> neverCheckingBlocked x inputs (fst (connect x p now s))) \<and>
   (state t = Some INIT \<and> request t = Some r \<and> getSuccess r \<and> \<not> truthy (blockedPrefix t)
      \<longrightarrow> onRequestComplete x t =
            (let (t2, es) = connectStage2 x (t\<lparr>lastStatusCode := getLastStatusCode r,
                                               state := Some CONNECTION_TESTING\<rparr>)
             in (t2, Debug ''TestConnection: request complete for initial check'' # es, None))) \<and>
   (getFirstTestResults (channel u) = Some cached \<and> \<not> truthy (arrayIndex cached 1)
      \<longrightarrow> connect x p now u =
            (let (u2, es) = connectStage2 x
                   (u\<lparr>path := Some p, startTime := Some now,
                      hostPrefix := correctHostPrefix (channel u) (arrayIndex cached 0),
                      blockedPrefix := arrayIndex cached 1,
                      state := Some CONNECTION_TESTING\<rparr>)
             in (u2, NotifyStatEvent TEST_STAGE_ONE_START # es)))"
proof (intro conjI impI)
  assume a: "blockedPrefixFalsy x inputs (fst (connect x p now s))"
  from never_run[OF a state_connect[OF blockedPrefixFalsy_head[OF a]]]
  show "neverCheckingBlocked x inputs (fst (connect x p now s))" .
next
  assume "state t = Some INIT \<and> request t = Some r \<and> getSuccess r \<and> \<not> truthy (blockedPrefix t)"
  then show "onRequestComplete x t =
            (let (t2, es) = connectStage2 x (t\<lparr>lastStatusCode := getLastStatusCode r,
                                               state := Some CONNECTION_TESTING\<rparr>)
             in (t2, Debug ''TestConnection: request complete for initial check'' # es, None))"
    by (simp add: onRequestComplete_def Let_def)
next
  assume "getFirstTestResults (channel u) = Some cached \<and> \<not> truthy (arrayIndex cached 1)"
  then show "connect x p now u =
            (let (u2, es) = connectStage2 x
                   (u\<lparr>path := Some p, startTime := Some now,
                      hostPrefix := correctHostPrefix (channel u) (arrayIndex cached 0),
                      blockedPrefix := arrayIndex cached 1,
                      state := Some CONNECTION_TESTING\<rparr>)
             in (u2, NotifyStatEvent TEST_STAGE_ONE_START # es))"
    by (simp add: connect_def Let_def)
qed

text \<open>
  Three instances: a run in which the response of stage one parses to
  \<^verbatim>\<open>["hostA", ""]\<close> and the request then succeeds; the completion handler on a
  channel in \<open>INIT\<close> whose request has succeeded; and \<^verbatim>\<open>connect\<close> on a channel whose
  owner has \<^verbatim>\<open>["hostA", ""]\<close> cached.
\<close>

theorem falsy_blockedPrefix_skips_checking_blocked_witness:
  "blockedPrefixFalsy True [RequestData 200 ''[hostA,]'' 5, RequestComplete 200 True None]
     (fst (connect True ''/test'' 0 (BrowserTestChannel_new freshOwner onePayloadParser))) \<and>
   neverCheckingBlocked True [RequestData 200 ''[hostA,]'' 5, RequestComplete 200 True None]
     (fst (connect True ''/test'' 0 (BrowserTestChannel_new freshOwner onePayloadParser))) \<and>
   state (stageOneChannel\<lparr>request := Some (createChannelRequest\<lparr>getSuccess := True\<rparr>)\<rparr>) = Some INIT \<and>
   state (fst (onRequestComplete True
            (stageOneChannel\<lparr>request := Some (createChannelRequest\<lparr>getSuccess := True\<rparr>)\<rparr>)))
     = Some CONNECTION_TESTING \<and>
   getFirstTestResults (channel (BrowserTestChannel_new cachedUnblockedOwner onePayloadParser))
     = Some [JStr ''hostA'', JStr []] \<and>
   state (fst (connect True ''/test'' 0 (BrowserTestChannel_new cachedUnblockedOwner onePayloadParser)))
     = Some CONNECTION_TESTING"
proof -
  let ?inputs = "[RequestData 200 ''[hostA,]'' 5, RequestComplete 200 True None]"
  let ?s = "BrowserTestChannel_new freshOwner onePayloadParser"
  let ?r = "createChannelRequest\<lparr>getSuccess := True\<rparr>"
  let ?t = "stageOneChannel\<lparr>request := Some ?r\<rparr>"
  let ?u = "BrowserTestChannel_new cachedUnblockedOwner onePayloadParser"
  let ?cached = "[JStr ''hostA'', JStr []]"
  note T = falsy_blockedPrefix_skips_checking_blocked[of True ?inputs "''/test''" 0 ?s ?t ?r ?u ?cached]
  have h1: "blockedPrefixFalsy True ?inputs (fst (connect True ''/test'' 0 ?s))"
    unfolding stageOneChannel_def[symmetric]
    by (simp add: stageOneChannel_eq onRequestData_def onRequestComplete_def connectStage2_def
        onePayloadParser_def freshOwner_def createChannelRequest_def arrayIndex_def Let_def)
  have h2: "state ?t = Some INIT \<and> request ?t = Some ?r \<and> getSuccess ?r \<and> \<not> truthy (blockedPrefix ?t)"
    by (simp add: stageOneChannel_eq)
  have h3: "getFirstTestResults (channel ?u) = Some ?cached \<and> \<not> truthy (arrayIndex ?cached 1)"
    by (simp add: BrowserTestChannel_new_def cachedUnblockedOwner_def arrayIndex_def)
  have c1: "neverCheckingBlocked True ?inputs (fst (connect True ''/test'' 0 ?s))"
    using T h1 by blast
  have "onRequestComplete True ?t =
          (let (t2, es) = connectStage2 True (?t\<lparr>lastStatusCode := getLastStatusCode ?r,
                                              state := Some CONNECTION_TESTING\<rparr>)
           in (t2, Debug ''TestConnection: request complete for initial check'' # es, None))"
    using T h2 by blast
  then have c2: "state (fst (onRequestComplete True ?t)) = Some CONNECTION_TESTING"
    by (simp add: case_prod_beta connectStage2_state)
  have "connect True ''/test'' 0 ?u =
          (let (u2, es) = connectStage2 True
                 (?u\<lparr>path := Some ''/test'', startTime := Some 0,
                     hostPrefix := correctHostPrefix (channel ?u) (arrayIndex ?cached 0),
                     blockedPrefix := arrayIndex ?cached 1,
                     state := Some CONNECTION_TESTING\<rparr>)
           in (u2, NotifyStatEvent TEST_STAGE_ONE_START # es))"
    using T h3 by blast
  then have c3: "state (fst (connect True ''/test'' 0 ?u)) = Some CONNECTION_TESTING"
    by (simp add: case_prod_beta connectStage2_state)
  from h1 c1 h2 c2 h3 c3 show ?thesis by simp
qed

subsection \<open>Stage one: bad data\<close>

text \<open>
  Claim C5. In state \<open>INIT\<close>, when the response text is empty or the parser raises on
  it, the data handler records the status code and changes nothing else (no new
  request, the same state), calls \<^verbatim>\<open>testConnectionFailure(this, BAD_DATA)\<close> exactly
  once and nothing else of the owner, and returns normally: no exception escapes.
\<close>

theorem bad_data_in_stage_one:
  assumes "state s = Some INIT"
    and "responseText = [] \<or> isl (parser s responseText)"
  shows "onRequestData x req responseText now s =
           (s\<lparr>lastStatusCode := getLastStatusCode req\<rparr>,
            [Debug ''TestConnection: Got data for stage 1'',
             (if responseText = [] then Debug ''TestConnection: Null responseText''
              else DumpException (projl (parser s responseText))),
             TestConnectionFailure (Some BAD_DATA)],
            None)"
  using assms by (auto simp: onRequestData_def Let_def split: sum.splits)

text \<open>An empty response, and a response on which the parser raises.\<close>

theorem bad_data_in_stage_one_witness:
  "state stageOneChannel = Some INIT \<and>
   isl (parser stageOneChannel ''<html>'') \<and>
   onRequestData True createChannelRequest [] 5 stageOneChannel =
     (stageOneChannel\<lparr>lastStatusCode := getLastStatusCode createChannelRequest\<rparr>,
      [Debug ''TestConnection: Got data for stage 1'',
       Debug ''TestConnection: Null responseText'',
       TestConnectionFailure (Some BAD_DATA)],
      None) \<and>
   onRequestData True createChannelRequest ''<html>'' 5 stageOneChannel =
     (stageOneChannel\<lparr>lastStatusCode := getLastStatusCode createChannelRequest\<rparr>,
      [Debug ''TestConnection: Got data for stage 1'',
       DumpException ParserException,
       TestConnectionFailure (Some BAD_DATA)],
      None)"
proof -
  have i: "state stageOneChannel = Some INIT" by (simp add: stageOneChannel_eq)
  have p: "parser stageOneChannel ''<html>'' = Inl ParserException"
    by (simp add: stageOneChannel_eq onePayloadParser_def)
  have e: "([] :: string) = [] \<or> isl (parser stageOneChannel [])" by simp
  have r: "''<html>'' = [] \<or> isl (parser stageOneChannel ''<html>'')" by (simp add: p)
  from bad_data_in_stage_one[OF i e, of True createChannelRequest 5]
       bad_data_in_stage_one[OF i r, of True createChannelRequest 5] i p
  show ?thesis by simp
qed

subsection \<open>The blocked check\<close>

text \<open>
  Claim C8, as it stands, fails. The owner has cached the first result
  \<^verbatim>\<open>["hostA", "blockedHostB"]\<close>, so \<^verbatim>\<open>connect\<close> runs the blocked check. The image probe
  is handed to \<^verbatim>\<open>testLoadImageWithRetries\<close> first, with its three retries, and a single
  \<open>REQUEST_MADE\<close> follows it: no notification precedes the probe, and the attempts that
  the retries make are not notified one by one.
\<close>

theorem request_made_follows_the_probe:
  "\<not> requestMadeBeforeProbe False
       (snd (connect True ''/test'' 0 (BrowserTestChannel_new cachedBlockedOwner onePayloadParser))) \<and>
   snd (connect True ''/test'' 0 (BrowserTestChannel_new cachedBlockedOwner onePayloadParser)) =
     [NotifyStatEvent TEST_STAGE_ONE_START,
      TestLoadImageWithRetries
        (makeUnique (newUri (DataUri (JStr ''blockedHostB'') ''/mail/images/cleardot.gif'')))
        5000 3 2000,
      NotifyServerReachabilityEvent REQUEST_MADE]"
  by (simp add: connect_def checkBlocked_def BrowserTestChannel_new_def cachedBlockedOwner_def
      arrayIndex_def BLOCKED_TIMEOUT_def BLOCKED_RETRIES_def BLOCKED_PAUSE_BETWEEN_RETRIES_def
      Let_def)

text \<open>
  Claim C8, amended. One blocked check, that is one call of \<^verbatim>\<open>checkBlocked_\<close> with all
  the attempts its probe makes, emits exactly one \<open>REQUEST_MADE\<close>, right after the
  probe with its retries has been handed to \<^verbatim>\<open>testLoadImageWithRetries\<close>. The callback
  of the probe, which reports the overall outcome, emits \<open>REQUEST_SUCCEEDED\<close> once when
  the check succeeded and not at all when it failed.
\<close>

theorem blocked_check_reachability_events:
  "snd (checkBlocked s) =
     [TestLoadImageWithRetries
        (makeUnique (newUri (DataUri (blockedPrefix s) ''/mail/images/cleardot.gif'')))
        5000 3 2000,
      NotifyServerReachabilityEvent REQUEST_MADE] \<and>
   count_list (snd (checkBlockedCallback x succeeded s))
     (NotifyServerReachabilityEvent REQUEST_SUCCEEDED) = (if succeeded then 1 else 0)"
  using connectStage2_no_succeeded[of x "s\<lparr>state := Some CONNECTION_TESTING\<rparr>"]
  by (auto simp: checkBlocked_def checkBlockedCallback_def Let_def BLOCKED_TIMEOUT_def
      BLOCKED_RETRIES_def BLOCKED_PAUSE_BETWEEN_RETRIES_def count_list_0_iff split: prod.splits)

subsection \<open>Stage two: both chunks at once\<close>

lemma nonSentinel_chunk:
  "state s = Some CONNECTION_TESTING \<Longrightarrow> \<not> receivedIntermediateResult s \<Longrightarrow> t \<noteq> ''11111'' \<Longrightarrow>
   onRequestData x req t now s =
     (s\<lparr>lastStatusCode := getLastStatusCode req, lastTime := Some now, firstTime := Some now,
        receivedIntermediateResult := False\<rparr>,
      [NotifyStatEvent TEST_STAGE_TWO_DATA_BOTH], None)"
  by (simp add: onRequestData_def Let_def)

lemma awaiting_step:
  "awaiting s \<Longrightarrow> nonSentinelData i \<Longrightarrow>
   awaiting (fst (tc_step x i s)) \<and> ownerCallbacks (snd (tc_step x i s)) = []"
proof (cases i)
  case (RequestData c t now)
  assume a: "awaiting s" and n: "nonSentinelData i"
  then obtain r where r: "request s = Some r" by (auto simp: awaiting_def)
  let ?r = "r\<lparr>getLastStatusCode := c\<rparr>"
  have "onRequestData x ?r t now (s\<lparr>request := Some ?r\<rparr>) =
     ((s\<lparr>request := Some ?r\<rparr>)\<lparr>lastStatusCode := getLastStatusCode ?r, lastTime := Some now,
        firstTime := Some now, receivedIntermediateResult := False\<rparr>,
      [NotifyStatEvent TEST_STAGE_TWO_DATA_BOTH], None)"
    using a n RequestData by (intro nonSentinel_chunk) (auto simp: awaiting_def)
  then show ?thesis using r RequestData a by (simp add: awaiting_def)
qed auto

lemma awaiting_run:
  "awaiting s \<Longrightarrow> list_all nonSentinelData inputs \<Longrightarrow>
   awaiting (fst (tc_run x inputs s)) \<and> ownerCallbacks (snd (tc_run x inputs s)) = []"
proof (induction inputs arbitrary: s)
  case Nil
  then show ?case by simp
next
  case (Cons i inputs)
  from awaiting_step[OF Cons.prems(1), of i x] Cons.prems(2)
  have 1: "awaiting (fst (tc_step x i s))" and 2: "ownerCallbacks (snd (tc_step x i s)) = []"
    by auto
  from Cons.IH[OF 1] Cons.prems(2) 2 show ?case
    by (auto simp: ownerCallbacks_append split: prod.splits)
qed

lemma awaiting_complete:
  "awaiting s \<Longrightarrow>
   snd (tc_step True (RequestComplete c True err) s) =
     [Debug ''TestConnection: request complete for stage 2'',
      Debug ''Test connection failed; not using streaming'',
      NotifyStatEvent PROXY, TestConnectionFinished False]"
  by (auto simp: awaiting_def onRequestComplete_def Let_def)

text \<open>
  Claim C10, as it stands, fails: a first chunk other than \<^verbatim>\<open>"11111"\<close> does not settle
  the outcome. The branch for such a chunk leaves \<^verbatim>\<open>receivedIntermediateResult_\<close>
  false, so the next chunk is examined in the same way. Here the first chunk is
  \<^verbatim>\<open>"111"\<close>, to which the channel answers nothing, and the next is \<^verbatim>\<open>"11111"\<close>: it takes
  the early exit and the channel reports \<^verbatim>\<open>testConnectionFinished(this, true)\<close>.
\<close>

theorem later_sentinel_reports_unbuffered:
  "''111'' \<noteq> ''11111'' \<and>
   state stageTwoChannel = Some CONNECTION_TESTING \<and>
   \<not> receivedIntermediateResult stageTwoChannel \<and>
   \<not> receivedIntermediateResult
       (fst (onRequestData True createChannelRequest ''111'' 100 stageTwoChannel)) \<and>
   ownerCallbacks (fst (snd (onRequestData True createChannelRequest ''111'' 100 stageTwoChannel)))
     = [] \<and>
   ownerCallbacks (snd (tc_run True [RequestData 200 ''11111'' 150]
       (fst (onRequestData True createChannelRequest ''111'' 100 stageTwoChannel))))
     = [TestConnectionFinished True]"
  by (simp add: stageTwoChannel_eq onRequestData_def checkForEarlyNonBuffered_def
      createChannelRequest_def Let_def)

text \<open>
  Claim C10, amended. The channel is in \<open>CONNECTION_TESTING\<close> with its request in
  flight and has seen no chunk \<^verbatim>\<open>"11111"\<close>. When the first chunk is any other text,
  the handler sets \<^verbatim>\<open>firstTime_\<close> and \<^verbatim>\<open>lastTime_\<close> to the same instant and leaves
  \<^verbatim>\<open>receivedIntermediateResult_\<close> false. If no later chunk is \<^verbatim>\<open>"11111"\<close> either,
  then on a browser with XHR streaming the request that completes with success makes
  the channel call \<^verbatim>\<open>testConnectionFinished(this, false)\<close>, and that is the only call
  to the owner.
\<close>

theorem first_chunk_not_sentinel_reports_buffered:
  assumes "state s = Some CONNECTION_TESTING"
    and "\<not> receivedIntermediateResult s"
    and "request s = Some r"
    and "responseText \<noteq> ''11111''"
    and "list_all nonSentinelData further"
  shows "firstTime (fst (onRequestData x req responseText now s)) = Some now \<and>
         lastTime (fst (onRequestData x req responseText now s)) = Some now \<and>
         \<not> receivedIntermediateResult (fst (onRequestData x req responseText now s)) \<and>
         (x \<longrightarrow> ownerCallbacks (snd (tc_run x (further @ [RequestComplete c True err])
                    (fst (onRequestData x req responseText now s))))
                = [TestConnectionFinished False])"
proof -
  let ?s1 = "s\<lparr>lastStatusCode := getLastStatusCode req, lastTime := Some now,
               firstTime := Some now, receivedIntermediateResult := False\<rparr>"
  have eq: "fst (onRequestData y req responseText now s) = ?s1" for y
    using nonSentinel_chunk[OF assms(1,2,4)] by simp
  have aw: "awaiting ?s1" using assms(1,3) by (simp add: awaiting_def)
  have "ownerCallbacks (snd (tc_run True (further @ [RequestComplete c True err]) ?s1))
        = [TestConnectionFinished False]"
    using awaiting_run[OF aw assms(5), of True]
      awaiting_complete[of "fst (tc_run True further ?s1)" c err]
    by (simp add: tc_run_snoc ownerCallbacks_append)
  then show ?thesis by (auto simp: eq)
qed

text \<open>
  Both chunks arrive together 2050 ms after \<^verbatim>\<open>connect()\<close>, the same text is delivered
  once more, and the request completes.
\<close>

theorem first_chunk_not_sentinel_reports_buffered_witness:
  "state stageTwoChannel = Some CONNECTION_TESTING \<and>
   \<not> receivedIntermediateResult stageTwoChannel \<and>
   request stageTwoChannel = Some createChannelRequest \<and>
   list_all nonSentinelData [RequestData 200 ''111112'' 2100] \<and>
   firstTime (fst (onRequestData True createChannelRequest ''111112'' 2050 stageTwoChannel))
     = Some 2050 \<and>
   lastTime (fst (onRequestData True createChannelRequest ''111112'' 2050 stageTwoChannel))
     = Some 2050 \<and>
   \<not> receivedIntermediateResult
       (fst (onRequestData True createChannelRequest ''111112'' 2050 stageTwoChannel)) \<and>
   ownerCallbacks (snd (tc_run True ([RequestData 200 ''111112'' 2100] @ [RequestComplete 200 True None])
       (fst (onRequestData True createChannelRequest ''111112'' 2050 stageTwoChannel))))
     = [TestConnectionFinished False]"
proof -
  have 1: "state stageTwoChannel = Some CONNECTION_TESTING" by (simp add: stageTwoChannel_eq)
  have 2: "\<not> receivedIntermediateResult stageTwoChannel" by (simp add: stageTwoChannel_eq)
  have 3: "request stageTwoChannel = Some createChannelRequest" by (simp add: stageTwoChannel_eq)
  have 4: "''111112'' \<noteq> ''11111''" by simp
  have 5: "list_all nonSentinelData [RequestData 200 ''111112'' 2100]" by simp
  from first_chunk_not_sentinel_reports_buffered[OF 1 2 3 4 5, of True createChannelRequest 2050 200 None]
       1 2 3 5
  show ?thesis by simp
qed

end
